theory Spec2Isabelle
  imports Main "HOL-Library.Word" "HOL-Library.Sublist"
begin

section \<open>Characters and strings\<close>

text \<open>
  The program works on \<open>std::string\<close> values holding bytes; a \<open>string\<close> is the list of
  these bytes.  \<open>std::tolower\<close> and \<open>std::isdigit\<close> are the ones of the "C" locale.
\<close>

definition tolower :: "char \<Rightarrow> char" where
  "tolower c =
     (case map_of (zip ''ABCDEFGHIJKLMNOPQRSTUVWXYZ'' ''abcdefghijklmnopqrstuvwxyz'') c of
        Some l \<Rightarrow> l
      | None \<Rightarrow> c)"

definition to_lower :: "string \<Rightarrow> string" where
  "to_lower s = map tolower s"

definition isdigit :: "char \<Rightarrow> bool" where
  "isdigit c = (c \<in> set ''0123456789'')"

definition is_space :: "char \<Rightarrow> bool" where
  "is_space c = (c = CHR '' '' \<or> c = CHR 0x09 \<or> c = CHR 0x0A \<or> c = CHR 0x0D)"

text \<open>\<open>util::trim_copy\<close>: the value without its leading and trailing blanks, tabs, line feeds
  and carriage returns.\<close>

definition trim_copy :: "string \<Rightarrow> string" where
  "trim_copy v = rev (dropWhile is_space (rev (dropWhile is_space v)))"

text \<open>\<open>std::to_string\<close> on a non-negative number: its decimal digits.\<close>

definition digit_char :: "nat \<Rightarrow> char" where
  "digit_char d = ''0123456789'' ! d"

fun to_string :: "nat \<Rightarrow> string" where
  "to_string n = (if n < 10 then [digit_char n] else to_string (n div 10) @ [digit_char (n mod 10)])"

declare to_string.simps [simp del]

text \<open>\<open>std::string::find_last_of\<close> for one character: the index of its last occurrence,
  \<open>None\<close> for \<open>npos\<close>.\<close>

definition find_last_of :: "string \<Rightarrow> char \<Rightarrow> nat option" where
  "find_last_of s c =
     (if c \<in> set s then Some (length s - 1 - length (takeWhile (\<lambda>x. x \<noteq> c) (rev s))) else None)"

definition ends_with :: "string \<Rightarrow> string \<Rightarrow> bool" where
  "ends_with s e = (length e \<le> length s \<and> drop (length s - length e) s = e)"

section \<open>Paths as strings\<close>

text \<open>
  The operations of \<open>std::filesystem::path\<close> that the program applies to the paths it is
  given, on POSIX path names (separator \<open>/\<close>).  \<open>filename\<close> is what follows the last
  separator; \<open>extension\<close> starts at the last dot of the file name, unless that dot is its
  first character or the file name is \<open>.\<close> or \<open>..\<close>; \<open>stem\<close> is the file name without
  its extension.
\<close>

definition filename :: "string \<Rightarrow> string" where
  "filename p = rev (takeWhile (\<lambda>c. c \<noteq> CHR ''/'') (rev p))"

definition extension :: "string \<Rightarrow> string" where
  "extension p =
     (let f = filename p in
      if f = ''.'' \<or> f = ''..'' then []
      else case find_last_of f (CHR ''.'') of
             None \<Rightarrow> []
           | Some pos \<Rightarrow> if pos = 0 then [] else drop pos f)"

definition stem :: "string \<Rightarrow> string" where
  "stem p = (let f = filename p in take (length f - length (extension p)) f)"

definition has_extension :: "string \<Rightarrow> bool" where
  "has_extension p = (extension p \<noteq> [])"

definition has_stem :: "string \<Rightarrow> bool" where
  "has_stem p = (stem p \<noteq> [])"

text \<open>The part of a path up to and including its last separator (not a function of the
  program; it serves to state where a file lies).\<close>

definition dirpart :: "string \<Rightarrow> string" where
  "dirpart p = rev (dropWhile (\<lambda>c. c \<noteq> CHR ''/'') (rev p))"

text \<open>\<open>replace_extension\<close>: the extension is removed, a dot is added when the replacement is
  not empty and does not start with one, and the replacement is appended.\<close>

definition replace_extension :: "string \<Rightarrow> string \<Rightarrow> string" where
  "replace_extension p r =
     take (length p - length (extension p)) p
       @ (if r \<noteq> [] \<and> hd r \<noteq> CHR ''.'' then ''.'' else []) @ r"

text \<open>\<open>parent_path\<close>: the path without its last element and the separators before it; the
  parent of the root directory is the root directory, the parent of a bare name is empty.\<close>

definition parent_path :: "string \<Rightarrow> string" where
  "parent_path p =
     (if CHR ''/'' \<notin> set p then []
      else let d = rev (dropWhile (\<lambda>c. c \<noteq> CHR ''/'') (rev p));
               t = rev (dropWhile (\<lambda>c. c = CHR ''/'') (rev d))
           in if t = [] then ''/'' else t)"

text \<open>\<open>operator/\<close> with a relative right operand.\<close>

definition path_append :: "string \<Rightarrow> string \<Rightarrow> string" where
  "path_append p q =
     (if p = [] then q else if last p = CHR ''/'' then p @ q else p @ ''/'' @ q)"

section \<open>The file system and the host\<close>

type_synonym byte = "8 word"

datatype file_kind = NotFound | RegularKind | DirectoryKind | OtherKind

text \<open>
  What the program asks of the file system: the kind of the entry a path resolves to
  (\<open>fs::status\<close>), the bytes a binary input stream opened on it delivers (\<open>None\<close> when
  the stream cannot be opened), the identity of the entry (what \<open>fs::equivalent\<close>
  compares), the elements of \<open>fs::weakly_canonical\<close> of the path after the root
  directory, \<open>fs::absolute\<close> of the path as a string, and whether removing the path (\<open>fs::remove\<close>,
  \<open>fs::remove_all\<close>) and \<open>fs::create_directories\<close> fail on it.
\<close>

record filesystem =
  kind :: "string \<Rightarrow> file_kind"
  bytes_of :: "string \<Rightarrow> byte list option"
  ident :: "string \<Rightarrow> nat"
  weakly_canonical :: "string \<Rightarrow> string list"
  absolute :: "string \<Rightarrow> string"
  remove_fails :: "string \<Rightarrow> bool"
  create_directories_fails :: "string \<Rightarrow> bool"

definition exists :: "filesystem \<Rightarrow> string \<Rightarrow> bool" where
  "exists fs p = (kind fs p \<noteq> NotFound)"

definition is_directory :: "filesystem \<Rightarrow> string \<Rightarrow> bool" where
  "is_directory fs p = (kind fs p = DirectoryKind)"

definition is_regular_file :: "filesystem \<Rightarrow> string \<Rightarrow> bool" where
  "is_regular_file fs p = (kind fs p = RegularKind)"

definition equivalent :: "filesystem \<Rightarrow> string \<Rightarrow> string \<Rightarrow> bool" where
  "equivalent fs p q = (exists fs p \<and> exists fs q \<and> ident fs p = ident fs q)"

section \<open>File types and recognition by extension\<close>

datatype FileType =
  REGULAR_FILE | DIRECTORY | ARCHIVE_TAR | ARCHIVE_TAR_GZ | ARCHIVE_TAR_BZ2
  | ARCHIVE_TAR_XZ | ARCHIVE_ZIP | ARCHIVE_RAR | ARCHIVE_7Z
  | ARCHIVE_LZ4 | ARCHIVE_ZSTD | ARCHIVE_XAR | UNKNOWN

datatype OperationType = COMPRESS | DECOMPRESS | UNKNOWN_OPERATION

record RecognitionResult =
  source_type :: FileType
  target_type_hint :: FileType
  operation :: OperationType

definition is_split_zip_extension :: "string \<Rightarrow> bool" where
  "is_split_zip_extension ext_lower =
     (length ext_lower = 4 \<and> ext_lower ! 0 = CHR ''.'' \<and> ext_lower ! 1 = CHR ''z''
      \<and> isdigit (ext_lower ! 2) \<and> isdigit (ext_lower ! 3))"

definition recognize_by_extension :: "string \<Rightarrow> FileType" where
  "recognize_by_extension path_str =
     (if \<not> has_extension path_str then UNKNOWN
      else let ext = to_lower (extension path_str) in
        if ext = ''.tar'' then ARCHIVE_TAR
        else if ext = ''.zip'' then ARCHIVE_ZIP
        else if is_split_zip_extension ext then ARCHIVE_ZIP
        else if ext = ''.rar'' then ARCHIVE_RAR
        else if ext = ''.7z'' then ARCHIVE_7Z
        else if ext = ''.lz4'' then ARCHIVE_LZ4
        else if ext = ''.zst'' \<or> ext = ''.zstd'' then ARCHIVE_ZSTD
        else if ext = ''.xar'' then ARCHIVE_XAR
        else if ext = ''.tgz'' then ARCHIVE_TAR_GZ
        else if ext = ''.tbz2'' \<or> ext = ''.tbz'' then ARCHIVE_TAR_BZ2
        else if ext = ''.txz'' then ARCHIVE_TAR_XZ
        else if has_stem path_str \<and> has_extension (stem path_str) then
          (let stem_ext = to_lower (extension (stem path_str)) in
           if stem_ext = ''.tar'' then
             (if ext = ''.gz'' then ARCHIVE_TAR_GZ
              else if ext = ''.bz2'' then ARCHIVE_TAR_BZ2
              else if ext = ''.xz'' then ARCHIVE_TAR_XZ
              else UNKNOWN)
           else UNKNOWN)
        else UNKNOWN)"

section \<open>Split ZIP archives\<close>

definition is_split_zip_part :: "string \<Rightarrow> bool" where
  "is_split_zip_part path =
     (if \<not> has_extension path then False
      else is_split_zip_extension (to_lower (extension path)))"

definition find_split_zip_main :: "filesystem \<Rightarrow> string \<Rightarrow> string" where
  "find_split_zip_main fs any_part_path =
     (let main_zip = replace_extension any_part_path ''.zip''
      in if exists fs main_zip then main_zip else [])"

definition is_split_zip :: "filesystem \<Rightarrow> string \<Rightarrow> bool" where
  "is_split_zip fs zip_path =
     (if \<not> has_extension zip_path then False
      else let ext = to_lower (extension zip_path) in
        if is_split_zip_part zip_path then True
        else if ext \<noteq> ''.zip'' then False
        else exists fs (replace_extension zip_path ''.z01''))"

section \<open>Errors\<close>

datatype ErrorCode =
  SUCCESS | MISSING_ARGS | INVALID_SOURCE | INVALID_TARGET | SAME_PATH | UNKNOWN_FORMAT
  | TOOL_NOT_FOUND | OPERATION_FAILED | PERMISSION_DENIED | NOT_ENOUGH_SPACE | UNKNOWN_ERROR

definition code_value :: "ErrorCode \<Rightarrow> int" where
  "code_value c =
     (case c of SUCCESS \<Rightarrow> 0 | MISSING_ARGS \<Rightarrow> 1 | INVALID_SOURCE \<Rightarrow> 2 | INVALID_TARGET \<Rightarrow> 3
      | SAME_PATH \<Rightarrow> 4 | UNKNOWN_FORMAT \<Rightarrow> 5 | TOOL_NOT_FOUND \<Rightarrow> 6 | OPERATION_FAILED \<Rightarrow> 7
      | PERMISSION_DENIED \<Rightarrow> 8 | NOT_ENOUGH_SPACE \<Rightarrow> 9 | UNKNOWN_ERROR \<Rightarrow> 99)"

text \<open>
  An exception in flight: a \<open>HitpagException\<close> with its code, the key of its message and
  the placeholders of the message, or the \<open>std::runtime_error\<close> of a closed input stream.
  A function that can throw returns \<open>exn + 'a\<close>.
\<close>

datatype exn =
  HitpagException ErrorCode string "(string \<times> string) list"
  | RuntimeError string

definition message_key :: "ErrorCode \<Rightarrow> string" where
  "message_key c =
     (case c of MISSING_ARGS \<Rightarrow> ''error_missing_args'' | INVALID_SOURCE \<Rightarrow> ''error_invalid_source''
      | INVALID_TARGET \<Rightarrow> ''error_invalid_target'' | SAME_PATH \<Rightarrow> ''error_same_path''
      | UNKNOWN_FORMAT \<Rightarrow> ''error_unknown_format'' | TOOL_NOT_FOUND \<Rightarrow> ''error_tool_not_found''
      | OPERATION_FAILED \<Rightarrow> ''error_operation_failed''
      | PERMISSION_DENIED \<Rightarrow> ''error_permission_denied''
      | NOT_ENOUGH_SPACE \<Rightarrow> ''error_not_enough_space''
      | SUCCESS \<Rightarrow> ''Unknown error'' | UNKNOWN_ERROR \<Rightarrow> ''Unknown error'')"

definition throw_error :: "ErrorCode \<Rightarrow> (string \<times> string) list \<Rightarrow> exn + 'a" where
  "throw_error code placeholders =
     Inl (HitpagException (if code = SUCCESS then UNKNOWN_ERROR else code) (message_key code)
            placeholders)"

text \<open>Whether a result is a \<open>HitpagException\<close> with a given code.\<close>

fun fails_with :: "ErrorCode \<Rightarrow> exn + 'a \<Rightarrow> bool" where
  "fails_with c (Inl (HitpagException c' key placeholders)) = (c' = c)"
| "fails_with c (Inl (RuntimeError what)) = False"
| "fails_with c (Inr v) = False"

section \<open>Recognition by header\<close>

text \<open>
  \<open>std::istream::read\<close> of \<open>n\<close> bytes at offset \<open>pos\<close> into a zero-initialised buffer: the
  buffer afterwards, \<open>gcount()\<close>, and whether the read set \<open>failbit\<close>, which it does when
  the end of the file comes before \<open>n\<close> bytes are extracted.
\<close>

definition stream_read :: "byte list \<Rightarrow> nat \<Rightarrow> nat \<Rightarrow> byte list \<times> nat \<times> bool" where
  "stream_read content pos n =
     (let got = take n (drop pos content)
      in (got @ replicate (n - length got) 0, length got, length got < n))"

text \<open>The signature comparisons on the first 16 bytes, in the order of the source.\<close>

definition header_magic :: "byte list \<Rightarrow> nat \<Rightarrow> FileType" where
  "header_magic header gcount =
     (if header ! 0 = 0x50 \<and> header ! 1 = 0x4B \<and>
         ((header ! 2 = 0x03 \<and> header ! 3 = 0x04) \<or>
          (header ! 2 = 0x05 \<and> header ! 3 = 0x06) \<or>
          (header ! 2 = 0x01 \<and> header ! 3 = 0x02)) then ARCHIVE_ZIP
      else if header ! 0 = 0x52 \<and> header ! 1 = 0x61 \<and> header ! 2 = 0x72 \<and> header ! 3 = 0x21
        then ARCHIVE_RAR
      else if gcount \<ge> 6 \<and> header ! 0 = 0x37 \<and> header ! 1 = 0x7A \<and> header ! 2 = 0xBC
              \<and> header ! 3 = 0xAF \<and> header ! 4 = 0x27 \<and> header ! 5 = 0x1C then ARCHIVE_7Z
      else if header ! 0 = 0x1F \<and> header ! 1 = 0x8B then ARCHIVE_TAR_GZ
      else if header ! 0 = 0x42 \<and> header ! 1 = 0x5A \<and> header ! 2 = 0x68 then ARCHIVE_TAR_BZ2
      else if gcount \<ge> 6 \<and> header ! 0 = 0xFD \<and> header ! 1 = 0x37 \<and> header ! 2 = 0x7A
              \<and> header ! 3 = 0x58 \<and> header ! 4 = 0x5A \<and> header ! 5 = 0x00 then ARCHIVE_TAR_XZ
      else if header ! 0 = 0x04 \<and> header ! 1 = 0x22 \<and> header ! 2 = 0x4D \<and> header ! 3 = 0x18
        then ARCHIVE_LZ4
      else if (header ! 0 = 0x28 \<and> header ! 1 = 0xB5 \<and> header ! 2 = 0x2F \<and> header ! 3 = 0xFD) \<or>
              (header ! 0 = 0x22 \<and> header ! 1 = 0xB5 \<and> header ! 2 = 0x2F \<and> header ! 3 = 0xFD)
        then ARCHIVE_ZSTD
      else UNKNOWN)"

text \<open>
  The scan of the 100-byte name field of a 512-byte block: the pair
  \<open>(looks_like_tar, has_filename)\<close> after the loop, which stops at the first byte that is
  neither zero nor printable.  The source compares \<open>char\<close> values with 32 and 126; a byte
  from 128 on is negative as a signed \<open>char\<close> and above 126 as an unsigned one, so either
  way the printable bytes are those from 32 to 126.
\<close>

fun scan_filename :: "byte list \<Rightarrow> bool \<Rightarrow> bool \<times> bool" where
  "scan_filename [] has_filename = (True, has_filename)"
| "scan_filename (b # bs) has_filename =
     (if b \<noteq> 0 then (if b < 32 \<or> b > 126 then (False, True) else scan_filename bs True)
      else scan_filename bs has_filename)"

definition ustar :: "byte list" where
  "ustar = [0x75, 0x73, 0x74, 0x61, 0x72]"

definition header_type :: "byte list \<Rightarrow> FileType" where
  "header_type content =
     (let (header, gcount, failed) = stream_read content 0 16 in
      if gcount < 4 \<or> failed then UNKNOWN
      else if header_magic header gcount \<noteq> UNKNOWN then header_magic header gcount
      else let (tar_header, gcount2, failed2) = stream_read content 257 6 in
        if gcount2 \<ge> 5 \<and> take 5 tar_header = ustar then ARCHIVE_TAR
        else let (tar_block, gcount3, failed3) = stream_read content 0 512 in
          if gcount3 \<ge> 512 then
            (let (looks_like_tar, has_filename) = scan_filename (take 100 tar_block) False
             in if looks_like_tar \<and> has_filename then ARCHIVE_TAR else UNKNOWN)
          else UNKNOWN)"

definition recognize_by_header :: "filesystem \<Rightarrow> string \<Rightarrow> FileType" where
  "recognize_by_header fs path =
     (case bytes_of fs path of None \<Rightarrow> UNKNOWN | Some content \<Rightarrow> header_type content)"

section \<open>Source type and operation\<close>

definition recognize_source_type :: "filesystem \<Rightarrow> string \<Rightarrow> exn + FileType" where
  "recognize_source_type fs source_path_str =
     (if \<not> exists fs source_path_str
        then throw_error INVALID_SOURCE [(''PATH'', source_path_str)]
      else if is_directory fs source_path_str then Inr DIRECTORY
      else if is_regular_file fs source_path_str then
        (let type = recognize_by_header fs source_path_str;
             type = (if type = UNKNOWN then recognize_by_extension source_path_str else type)
         in Inr (if type = UNKNOWN then REGULAR_FILE else type))
      else throw_error INVALID_SOURCE
             [(''PATH'', source_path_str), (''REASON'', ''not a regular file or directory'')])"

definition recognize :: "filesystem \<Rightarrow> string \<Rightarrow> string \<Rightarrow> exn + RecognitionResult" where
  "recognize fs source_path_str target_path_str =
     (case recognize_source_type fs source_path_str of
        Inl e \<Rightarrow> Inl e
      | Inr st \<Rightarrow>
          (let hint = (if target_path_str \<noteq> [] then recognize_by_extension target_path_str
                       else UNKNOWN);
               target_is_archive = (hint \<noteq> UNKNOWN \<and> hint \<noteq> REGULAR_FILE \<and> hint \<noteq> DIRECTORY)
           in if st = DIRECTORY \<or> st = REGULAR_FILE then
                (if target_is_archive
                   then Inr \<lparr>source_type = st, target_type_hint = hint, operation = COMPRESS\<rparr>
                   else Inr \<lparr>source_type = st, target_type_hint = UNKNOWN, operation = COMPRESS\<rparr>)
              else if exists fs target_path_str \<and> \<not> is_directory fs target_path_str then
                throw_error INVALID_TARGET
                  [(''PATH'', target_path_str),
                   (''REASON'', ''Target for decompression must be a directory.'')]
              else Inr \<lparr>source_type = st, target_type_hint = hint, operation = DECOMPRESS\<rparr>))"

definition parse_format_string :: "string \<Rightarrow> FileType" where
  "parse_format_string format_str =
     (let fmt = to_lower format_str in
      if fmt = ''zip'' then ARCHIVE_ZIP
      else if fmt = ''7z'' then ARCHIVE_7Z
      else if fmt = ''tar'' then ARCHIVE_TAR
      else if fmt = ''tar.gz'' \<or> fmt = ''tgz'' then ARCHIVE_TAR_GZ
      else if fmt = ''tar.bz2'' \<or> fmt = ''tbz2'' then ARCHIVE_TAR_BZ2
      else if fmt = ''tar.xz'' \<or> fmt = ''txz'' then ARCHIVE_TAR_XZ
      else if fmt = ''rar'' then ARCHIVE_RAR
      else if fmt = ''lz4'' then ARCHIVE_LZ4
      else if fmt = ''zstd'' \<or> fmt = ''zst'' then ARCHIVE_ZSTD
      else if fmt = ''xar'' then ARCHIVE_XAR
      else UNKNOWN)"

section \<open>What the program does that can be observed\<close>

text \<open>
  A message written to standard output or to standard error, given by its key in the
  message table (by its text, where the program writes a literal) and its placeholders; a
  probe for a tool (\<open>is_tool_available\<close>, which asks
  the shell where the tool is); the execution of a tool with its arguments in a working
  directory (\<open>execute_command\<close>).
\<close>

datatype event =
  Print string "(string \<times> string) list"
  | PrintErr string "(string \<times> string) list"
  | Probe string
  | Run string "string list" string

fun is_run :: "event \<Rightarrow> bool" where
  "is_run (Run t a w) = True"
| "is_run e = False"

section \<open>Resolving an existing target\<close>

definition multi_extensions :: "string list" where
  "multi_extensions = [''.tar.gz'', ''.tar.bz2'', ''.tar.xz'', ''.tar.zst'', ''.tar.lz4'']"

text \<open>The loop over \<open>multi_extensions\<close>: stem and extension at the first compound extension
  that the file name ends with and is longer than, both empty when there is none.\<close>

fun split_multi_extension :: "string \<Rightarrow> string list \<Rightarrow> string \<times> string" where
  "split_multi_extension fname [] = ([], [])"
| "split_multi_extension fname (ext # exts) =
     (if length fname > length ext \<and> drop (length fname - length ext) fname = ext
        then (take (length fname - length ext) fname, ext)
      else split_multi_extension fname exts)"

text \<open>The suffix index is an \<open>int\<close> that starts at 1 and is only ever incremented; it is a
  natural number here.\<close>

definition generate_sequential_candidate :: "string \<Rightarrow> nat \<Rightarrow> string" where
  "generate_sequential_candidate base_path suffix_index =
     (let parent = parent_path base_path;
          fname = filename base_path;
          (stem0, extension0) = split_multi_extension fname multi_extensions;
          (stem1, extension1) =
            (if stem0 = [] then
               (case find_last_of fname (CHR ''.'') of
                  None \<Rightarrow> (fname, [])
                | Some pos \<Rightarrow> if pos = 0 then (fname, []) else (take pos fname, drop pos fname))
             else (stem0, extension0));
          stem2 = (if stem1 = [] \<or> stem1 = ''.'' \<or> stem1 = ''..'' then ''target'' else stem1);
          suffixed_name = stem2 @ ''_'' @ to_string suffix_index @ extension1
      in path_append parent suffixed_name)"

text \<open>
  \<open>target_conflict::prompt_action\<close> and \<open>target_conflict::prompt_new_path\<close> are declared in
  a header that is not part of the sources at hand.  They are taken as parameters: the
  decisions that the calls of \<open>prompt_action\<close> return, in order, and the lines that the calls
  of \<open>prompt_new_path\<close> return, in order.  When a list is used up the input stream is
  closed, and reading from it throws the \<open>std::runtime_error\<close> of \<open>get_input\<close>.
\<close>

datatype Action = Overwrite | Cancel | Rename

record user =
  decisions :: "Action list"
  entries :: "string list"

definition input_stream_closed :: exn where
  "input_stream_closed = RuntimeError ''error_input_stream_closed''"

text \<open>
  One round of the rename loop, from the line the user entered on: either the loop goes
  on with a rename base and a counter, or a new target is adopted.
\<close>

datatype rename_result = Again string nat | Adopted string string nat

definition rename_step ::
  "filesystem \<Rightarrow> string \<Rightarrow> string \<Rightarrow> nat \<Rightarrow> string \<Rightarrow> event list \<times> rename_result" where
  "rename_step fs target rename_base suffix_counter answer =
     (let default_candidate = generate_sequential_candidate rename_base suffix_counter;
          candidate = trim_copy answer;
          candidate = (if candidate = [] then default_candidate else candidate)
      in if candidate = target then
           ([PrintErr ''target_exists_same'' []],
            Again rename_base
              (if candidate = default_candidate then suffix_counter + 1 else suffix_counter))
         else if exists fs candidate then
           ([PrintErr ''target_exists_rename_conflict'' [(''TARGET_PATH'', candidate)]],
            if candidate = default_candidate then Again rename_base (suffix_counter + 1)
            else Again candidate 1)
         else
           ([], if candidate = default_candidate
                  then Adopted candidate rename_base (suffix_counter + 1)
                else Adopted candidate candidate 1))"

text \<open>
  The same round as the specification words it, to be compared with \<open>rename_step\<close>: an
  empty entry stands for the default on offer; the default, when it is the current target
  or exists, is offered again with the counter incremented; any other entry is a custom
  path, which becomes the rename base with the counter back at 1, and is rejected when it
  is the current target or exists.
\<close>

definition rename_step_as_specified ::
  "filesystem \<Rightarrow> string \<Rightarrow> string \<Rightarrow> nat \<Rightarrow> string \<Rightarrow> rename_result" where
  "rename_step_as_specified fs target rename_base suffix_counter answer =
     (let default_candidate = generate_sequential_candidate rename_base suffix_counter;
          entry = trim_copy answer
      in if entry = [] \<or> entry = default_candidate then
           (if default_candidate = target \<or> exists fs default_candidate
              then Again rename_base (suffix_counter + 1)
            else Adopted default_candidate rename_base (suffix_counter + 1))
         else
           (if entry = target \<or> exists fs entry then Again entry 1
            else Adopted entry entry 1))"

definition rename_prompt :: "string \<Rightarrow> nat \<Rightarrow> event" where
  "rename_prompt rename_base suffix_counter =
     Print ''target_exists_rename_prompt''
       [(''DEFAULT'', generate_sequential_candidate rename_base suffix_counter)]"

text \<open>The rename loop \<open>while (true)\<close>: the new target, the rename base, the counter and the
  lines not yet read, once a candidate is adopted.\<close>

fun rename_flow ::
  "filesystem \<Rightarrow> string \<Rightarrow> string \<Rightarrow> nat \<Rightarrow> string list
     \<Rightarrow> event list \<times> (exn + string \<times> string \<times> nat \<times> string list)" where
  "rename_flow fs target rename_base suffix_counter [] =
     ([rename_prompt rename_base suffix_counter], Inl input_stream_closed)"
| "rename_flow fs target rename_base suffix_counter (answer # rest) =
     (case rename_step fs target rename_base suffix_counter answer of
        (evs, Again b c) \<Rightarrow>
          (case rename_flow fs target b c rest of
             (evs', r) \<Rightarrow> (rename_prompt rename_base suffix_counter # evs @ evs', r))
      | (evs, Adopted t b c) \<Rightarrow>
          (rename_prompt rename_base suffix_counter # evs, Inr (t, b, c, rest)))"

definition target_exists_header :: "filesystem \<Rightarrow> string \<Rightarrow> event" where
  "target_exists_header fs target =
     Print ''target_exists_header''
       [(''TARGET_PATH'', target),
        (''OBJECT_TYPE'', if is_directory fs target then ''target_exists_object_directory''
                          else ''target_exists_object_file'')]"

text \<open>
  The loop \<open>while (fs::exists(target_path))\<close>.  The result is the value returned, the target
  path afterwards and the file system afterwards, in which a removed file is gone.
\<close>

fun resolve_loop ::
  "filesystem \<Rightarrow> string \<Rightarrow> string \<Rightarrow> nat \<Rightarrow> Action list \<Rightarrow> string list
     \<Rightarrow> event list \<times> (exn + bool \<times> string \<times> filesystem)" where
  "resolve_loop fs target rename_base suffix_counter [] lines =
     (if \<not> exists fs target then ([], Inr (True, target, fs))
      else ([target_exists_header fs target], Inl input_stream_closed))"
| "resolve_loop fs target rename_base suffix_counter (action # later) lines =
     (if \<not> exists fs target then ([], Inr (True, target, fs))
      else case action of
        Overwrite \<Rightarrow>
          if is_directory fs target then
            ([target_exists_header fs target, Print ''target_exists_keep_directory'' []],
             Inr (True, target, fs))
          else if remove_fails fs target then
            (case resolve_loop fs target rename_base suffix_counter later lines of
               (evs, r) \<Rightarrow>
                 (target_exists_header fs target
                    # PrintErr ''target_exists_remove_failed'' [(''TARGET_PATH'', target)] # evs, r))
          else
            ([target_exists_header fs target],
             Inr (True, target, fs\<lparr>kind := (kind fs)(target := NotFound)\<rparr>))
      | Cancel \<Rightarrow> ([target_exists_header fs target], Inr (False, target, fs))
      | Rename \<Rightarrow>
          (case rename_flow fs target rename_base suffix_counter lines of
             (evs, Inl e) \<Rightarrow> (target_exists_header fs target # evs, Inl e)
           | (evs, Inr (t, b, c, rest)) \<Rightarrow>
               (case resolve_loop fs t b c later rest of
                  (evs', r) \<Rightarrow> (target_exists_header fs target # evs @ evs', r))))"

definition resolve_existing_target ::
  "filesystem \<Rightarrow> string \<Rightarrow> user \<Rightarrow> event list \<times> (exn + bool \<times> string \<times> filesystem)" where
  "resolve_existing_target fs target u =
     resolve_loop fs target target 1 (decisions u) (entries u)"

section \<open>Canonical paths and the layout of an archive\<close>

text \<open>
  A canonical path is absolute; it is the list of its elements after the root directory,
  the empty list being the root directory itself.  On these, \<open>parent_path\<close> drops the last
  element and leaves the root directory as it is, \<open>filename\<close> is the last element and is
  empty for the root directory, and \<open>empty()\<close> never holds.
\<close>


definition path_string :: "string list \<Rightarrow> string" where
  "path_string elements = (if elements = [] then ''/'' else concat (map (\<lambda>e. CHR ''/'' # e) elements))"

fun join_path :: "string list \<Rightarrow> string" where
  "join_path [] = []"
| "join_path [e] = e"
| "join_path (e # es) = e @ ''/'' @ join_path es"

fun mismatch :: "string list \<Rightarrow> string list \<Rightarrow> string list \<times> string list" where
  "mismatch (x # xs) (y # ys) = (if x = y then mismatch xs ys else (x # xs, y # ys))"
| "mismatch xs ys = (xs, ys)"

text \<open>
  \<open>fs::relative(p, base)\<close> on canonical paths is \<open>p.lexically_relative(base)\<close>: the elements
  of the result, none for the empty path.
\<close>

definition lexically_relative :: "string list \<Rightarrow> string list \<Rightarrow> string list" where
  "lexically_relative p base =
     (let (a, b) = mismatch p base in
      if a = [] \<and> b = [] then [''.'']
      else let n = int (length (filter (\<lambda>e. e \<noteq> ''..'' \<and> e \<noteq> [] \<and> e \<noteq> ''.'') b))
                     - int (length (filter (\<lambda>e. e = ''..'') b))
           in if n < 0 then []
              else if n = 0 \<and> (a = [] \<or> hd a = []) then [''.'']
              else replicate (nat n) ''..'' @ a)"

definition is_descendant_or_same :: "string list \<Rightarrow> string list \<Rightarrow> bool" where
  "is_descendant_or_same base target =
     (let relative = lexically_relative target base
      in if relative = [] then True else ''..'' \<notin> set relative)"

text \<open>
  The loop of \<open>determine_common_base\<close>.  It leaves through its \<open>return\<close> only, since a
  canonical path is never empty, and it does not return when the root directory is
  reached without every path being a descendant: the value is \<open>None\<close> then.
\<close>

partial_function (option) walk_up :: "string list \<Rightarrow> string list list \<Rightarrow> string list option" where
  "walk_up base paths =
     (if list_all (is_descendant_or_same base) paths then Some base
      else walk_up (butlast base) paths)"

definition determine_common_base :: "string list list \<Rightarrow> string list option" where
  "determine_common_base paths = walk_up (butlast (hd paths)) paths"

record CompressionSource =
  path :: string
  include_contents :: bool

definition archive_item :: "string list \<Rightarrow> string list \<Rightarrow> string" where
  "archive_item base_dir canonical =
     (let relative = lexically_relative canonical base_dir in
      if relative = [] \<or> relative = [''.''] then
        (let fallback = (if canonical = [] then [] else last canonical)
         in if fallback = [] then path_string canonical else fallback)
      else join_path relative)"

text \<open>
  The first part of \<open>operation::compress\<close>, up to the base directory and the items to
  archive.  \<open>None\<close> stands for not returning.
\<close>

definition compress_layout ::
  "filesystem \<Rightarrow> CompressionSource list \<Rightarrow> (exn + string list \<times> string list) option" where
  "compress_layout fs sources =
     (if sources = [] then
        Some (throw_error MISSING_ARGS
                [(''ADDITIONAL_INFO'', ''No sources provided for compression'')])
      else case find (\<lambda>src. \<not> exists fs (path src)) sources of
        Some src \<Rightarrow> Some (throw_error INVALID_SOURCE [(''PATH'', path src)])
      | None \<Rightarrow>
          (let canonical_sources = map (\<lambda>src. weakly_canonical fs (path src)) sources;
               is_directory_flags = map (\<lambda>c. is_directory fs (path_string c)) canonical_sources;
               single_contents_mode =
                 (length sources = 1 \<and> include_contents (hd sources) \<and> hd is_directory_flags)
           in if single_contents_mode then Some (Inr (hd canonical_sources, [''.'']))
              else case determine_common_base canonical_sources of
                None \<Rightarrow> None
              | Some base_dir \<Rightarrow>
                  Some (Inr (base_dir, map (archive_item base_dir) canonical_sources))))"

section \<open>Building and running the command\<close>

record Options =
  interactive_mode :: bool
  show_help :: bool
  show_version :: bool
  source_path :: string
  source_paths :: "string list"
  target_path :: string
  password :: string
  password_prompt :: bool
  compression_level :: nat
  thread_count :: nat
  verbose :: bool
  verify :: bool
  force_format :: string

text \<open>
  The host: which tools the shell finds, the exit status of a tool run, the passwords
  typed at the password prompts, in order, and the lines typed in answer to the questions
  of the interactive dialogue, in order.  The statistics of namespace \<open>progress\<close> are left
  out.
\<close>

record host =
  tool_available :: "string \<Rightarrow> bool"
  exit_status :: "string \<Rightarrow> string list \<Rightarrow> string \<Rightarrow> int"
  typed_passwords :: "string list"
  typed_lines :: "string list"

record command =
  tool :: string
  args :: "string list"
  working_dir :: string

definition int_to_string :: "int \<Rightarrow> string" where
  "int_to_string i = (if i < 0 then ''-'' @ to_string (nat (- i)) else to_string (nat i))"

definition require_tool :: "host \<Rightarrow> string \<Rightarrow> string \<Rightarrow> exn + unit" where
  "require_tool h t shown =
     (if tool_available h t then Inr () else throw_error TOOL_NOT_FOUND [(''TOOL_NAME'', shown)])"

definition level_flag :: "string \<Rightarrow> Options \<Rightarrow> string list" where
  "level_flag flag opts =
     (if compression_level opts > 0 then [flag @ to_string (compression_level opts)] else [])"

text \<open>
  The \<open>switch\<close> of \<open>operation::compress\<close>: the messages and probes it makes, and the command
  or the exception it ends with.
\<close>

definition compress_command ::
  "filesystem \<Rightarrow> host \<Rightarrow> string list \<Rightarrow> string \<Rightarrow> string \<Rightarrow> FileType \<Rightarrow> string \<Rightarrow> Options
     \<Rightarrow> event list \<times> (exn + command)" where
  "compress_command fs h items_to_archive working_dir_for_cmd target_path_str target_format pw opts =
     (let target_abs = absolute fs target_path_str in
      if target_format \<in> {ARCHIVE_TAR, ARCHIVE_TAR_GZ, ARCHIVE_TAR_BZ2, ARCHIVE_TAR_XZ} then
        ((if pw \<noteq> [] then [Print ''warning_tar_password'' []] else []) @ [Probe ''tar''],
         case require_tool h ''tar'' ''tar'' of
           Inl e \<Rightarrow> Inl e
         | Inr u \<Rightarrow>
             (let flags0 = (if target_format = ARCHIVE_TAR then ''-cf'' else []);
                  flags1 = (if target_format = ARCHIVE_TAR_GZ then ''-czf'' else flags0);
                  flags2 = (if target_format = ARCHIVE_TAR_BZ2 then ''-cjf'' else flags1);
                  flags = (if target_format = ARCHIVE_TAR_XZ then ''-cJf'' else flags2)
              in Inr \<lparr>tool = ''tar'', args = [flags, target_abs] @ items_to_archive,
                       working_dir = working_dir_for_cmd\<rparr>))
      else if target_format = ARCHIVE_ZIP then
        ([Probe ''zip''],
         case require_tool h ''zip'' ''zip'' of
           Inl e \<Rightarrow> Inl e
         | Inr u \<Rightarrow>
             Inr \<lparr>tool = ''zip'',
                  args = (if pw \<noteq> [] then [''-P'', pw] else []) @ level_flag ''-'' opts
                         @ [''-r'', target_abs] @ items_to_archive,
                  working_dir = working_dir_for_cmd\<rparr>)
      else if target_format = ARCHIVE_7Z then
        ([Probe ''7z''],
         case require_tool h ''7z'' ''7z'' of
           Inl e \<Rightarrow> Inl e
         | Inr u \<Rightarrow>
             Inr \<lparr>tool = ''7z'',
                  args = [''a''] @ (if pw \<noteq> [] then [''-p'' @ pw] else [])
                         @ level_flag ''-mx='' opts @ [target_abs] @ items_to_archive,
                  working_dir = working_dir_for_cmd\<rparr>)
      else if target_format = ARCHIVE_LZ4 then
        ([Probe ''lz4''],
         case require_tool h ''lz4'' ''lz4'' of
           Inl e \<Rightarrow> Inl e
         | Inr u \<Rightarrow>
             if length items_to_archive \<noteq> 1 then
               throw_error UNKNOWN_FORMAT
                 [(''INFO'', ''Multiple sources are not supported for lz4 compression.'')]
             else
               Inr \<lparr>tool = ''lz4'',
                    args = level_flag ''-'' opts @ [''-r'', hd items_to_archive, target_abs],
                    working_dir = working_dir_for_cmd\<rparr>)
      else if target_format = ARCHIVE_ZSTD then
        ([Probe ''zstd''],
         case require_tool h ''zstd'' ''zstd'' of
           Inl e \<Rightarrow> Inl e
         | Inr u \<Rightarrow>
             if length items_to_archive \<noteq> 1 then
               throw_error UNKNOWN_FORMAT
                 [(''INFO'', ''Multiple sources are not supported for zstd compression.'')]
             else
               Inr \<lparr>tool = ''zstd'',
                    args = level_flag ''-'' opts @ [''-r'', hd items_to_archive, ''-o'', target_abs],
                    working_dir = working_dir_for_cmd\<rparr>)
      else if target_format = ARCHIVE_XAR then
        ([Probe ''xar''],
         case require_tool h ''xar'' ''xar'' of
           Inl e \<Rightarrow> Inl e
         | Inr u \<Rightarrow>
             Inr \<lparr>tool = ''xar'', args = [''-cf'', target_abs] @ items_to_archive,
                  working_dir = working_dir_for_cmd\<rparr>)
      else ([], throw_error UNKNOWN_FORMAT
                  [(''INFO'', ''Unsupported target format for compression.'')]))"

definition verify_archive :: "host \<Rightarrow> string \<Rightarrow> FileType \<Rightarrow> event list \<times> bool" where
  "verify_archive h archive_path fmt =
     (let check = (\<lambda>t a. if \<not> tool_available h t then ([Probe t], False)
                          else ([Probe t, Run t a []], exit_status h t a [] = 0))
      in if fmt \<in> {ARCHIVE_TAR, ARCHIVE_TAR_GZ, ARCHIVE_TAR_BZ2, ARCHIVE_TAR_XZ}
           then check ''tar'' [''-tf'', archive_path]
         else if fmt = ARCHIVE_ZIP then check ''unzip'' [''-t'', archive_path]
         else if fmt = ARCHIVE_7Z then check ''7z'' [''t'', archive_path]
         else ([], True))"

text \<open>Running the command that was built, and what follows it in \<open>operation::compress\<close>.\<close>

definition run_compress :: "host \<Rightarrow> command \<Rightarrow> string \<Rightarrow> FileType \<Rightarrow> Options
     \<Rightarrow> event list \<times> (exn + unit)" where
  "run_compress h cmd target_path_str target_format opts =
     (let result = exit_status h (tool cmd) (args cmd) (working_dir cmd);
          started = [Print ''compressing'' [], Run (tool cmd) (args cmd) (working_dir cmd)]
      in if result \<noteq> 0 then
           (started, throw_error OPERATION_FAILED
                       [(''COMMAND'', tool cmd), (''EXIT_CODE'', int_to_string result)])
         else if verify opts then
           (case verify_archive h target_path_str target_format of
              (evs, ok) \<Rightarrow>
                (started @ [Print ''verifying'' []] @ evs
                   @ [Print (if ok then ''verification_success'' else ''verification_failed'') [],
                      Print ''operation_complete'' []],
                 Inr ()))
         else (started @ [Print ''operation_complete'' []], Inr ()))"

definition compress ::
  "filesystem \<Rightarrow> host \<Rightarrow> CompressionSource list \<Rightarrow> string \<Rightarrow> FileType \<Rightarrow> string \<Rightarrow> Options
     \<Rightarrow> (event list \<times> (exn + unit)) option" where
  "compress fs h sources target_path_str target_format pw opts =
     (case compress_layout fs sources of
        None \<Rightarrow> None
      | Some (Inl e) \<Rightarrow> Some ([], Inl e)
      | Some (Inr (base_dir, items_to_archive)) \<Rightarrow>
          (let threads = (if verbose opts \<and> thread_count opts > 1
                            then [Print ''threads_info'' [(''COUNT'', to_string (thread_count opts))]]
                          else [])
           in case compress_command fs h items_to_archive (path_string base_dir) target_path_str
                     target_format pw opts of
                (evs, Inl e) \<Rightarrow> Some (threads @ evs, Inl e)
              | (evs, Inr cmd) \<Rightarrow>
                  (case run_compress h cmd target_path_str target_format opts of
                     (evs', r) \<Rightarrow> Some (threads @ evs @ evs', r))))"

text \<open>The overload of \<open>operation::compress\<close> for one source path.\<close>

definition compress_single ::
  "filesystem \<Rightarrow> host \<Rightarrow> string \<Rightarrow> string \<Rightarrow> FileType \<Rightarrow> string \<Rightarrow> Options
     \<Rightarrow> (event list \<times> (exn + unit)) option" where
  "compress_single fs h source_path_str target_path_str target_format pw opts =
     (let has_trailing_slash =
            (source_path_str \<noteq> [] \<and>
             (last source_path_str = CHR ''/'' \<or> last source_path_str = CHR 0x5C))
      in compress fs h [\<lparr>path = source_path_str, include_contents = has_trailing_slash\<rparr>]
           target_path_str target_format pw opts)"

definition build_7z_extract_args :: "filesystem \<Rightarrow> string \<Rightarrow> string \<Rightarrow> string \<Rightarrow> string list" where
  "build_7z_extract_args fs source_path_str target_dir_path pw =
     [''x''] @ (if pw \<noteq> [] then [''-p'' @ pw] else [])
       @ [absolute fs source_path_str, ''-o'' @ absolute fs target_dir_path, ''-y'']"

text \<open>The \<open>switch\<close> of \<open>operation::decompress\<close>.\<close>

definition decompress_command ::
  "filesystem \<Rightarrow> host \<Rightarrow> string \<Rightarrow> string \<Rightarrow> FileType \<Rightarrow> string \<Rightarrow> Options
     \<Rightarrow> event list \<times> (exn + command)" where
  "decompress_command fs h source_path_str target_dir_path src_type pw opts =
     (let source_abs = absolute fs source_path_str;
          target_abs = absolute fs target_dir_path
      in
      if src_type \<in> {ARCHIVE_TAR, ARCHIVE_TAR_GZ, ARCHIVE_TAR_BZ2, ARCHIVE_TAR_XZ} then
        ((if pw \<noteq> [] then [Print ''warning_tar_password'' []] else []) @ [Probe ''tar''],
         case require_tool h ''tar'' ''tar'' of
           Inl e \<Rightarrow> Inl e
         | Inr u \<Rightarrow>
             (let flags0 = (if src_type = ARCHIVE_TAR then ''-xf'' else []);
                  flags1 = (if src_type = ARCHIVE_TAR_GZ then ''-xzf'' else flags0);
                  flags2 = (if src_type = ARCHIVE_TAR_BZ2 then ''-xjf'' else flags1);
                  flags = (if src_type = ARCHIVE_TAR_XZ then ''-xJf'' else flags2)
              in Inr \<lparr>tool = ''tar'', args = [flags, source_abs, ''-C'', target_abs],
                       working_dir = []\<rparr>))
      else if src_type = ARCHIVE_ZIP then
        (if is_split_zip fs source_path_str then
           (if \<not> tool_available h ''7z'' then
              ([Probe ''7z''],
               Inl (HitpagException TOOL_NOT_FOUND ''error_split_zip_requires_7z'' []))
            else
              (let actual_source =
                     (if is_split_zip_part source_path_str
                        then find_split_zip_main fs source_path_str else source_path_str)
               in if actual_source = [] then
                    ([Probe ''7z''],
                     throw_error INVALID_SOURCE
                       [(''PATH'', replace_extension source_path_str ''.zip''),
                        (''REASON'', ''error_split_zip_main_not_found'')])
                  else
                    ([Probe ''7z'']
                       @ (if verbose opts then [Print ''info_split_zip_detected'' []] else []),
                     Inr \<lparr>tool = ''7z'',
                          args = build_7z_extract_args fs actual_source target_dir_path pw,
                          working_dir = []\<rparr>)))
         else
           ([Probe ''unzip''],
            case require_tool h ''unzip'' ''unzip'' of
              Inl e \<Rightarrow> Inl e
            | Inr u \<Rightarrow>
                Inr \<lparr>tool = ''unzip'',
                     args = (if pw \<noteq> [] then [''-P'', pw] else [])
                            @ [''-o'', source_abs, ''-d'', target_abs],
                     working_dir = []\<rparr>))
      else if src_type = ARCHIVE_RAR then
        ([Probe ''unrar''],
         case require_tool h ''unrar'' ''unrar'' of
           Inl e \<Rightarrow> Inl e
         | Inr u \<Rightarrow>
             Inr \<lparr>tool = ''unrar'',
                  args = [''x''] @ (if pw \<noteq> [] then [''-p'' @ pw] else [])
                         @ [''-o+'', source_abs, target_abs],
                  working_dir = []\<rparr>)
      else if src_type = ARCHIVE_7Z then
        ([Probe ''7z''],
         case require_tool h ''7z'' ''7z'' of
           Inl e \<Rightarrow> Inl e
         | Inr u \<Rightarrow>
             Inr \<lparr>tool = ''7z'',
                  args = build_7z_extract_args fs source_path_str target_dir_path pw,
                  working_dir = []\<rparr>)
      else if src_type = ARCHIVE_LZ4 then
        ([Probe ''lz4''],
         case require_tool h ''lz4'' ''lz4'' of
           Inl e \<Rightarrow> Inl e
         | Inr u \<Rightarrow>
             Inr \<lparr>tool = ''lz4'', args = [''-d'', source_abs, target_abs], working_dir = []\<rparr>)
      else if src_type = ARCHIVE_ZSTD then
        ([Probe ''zstd''],
         case require_tool h ''zstd'' ''zstd'' of
           Inl e \<Rightarrow> Inl e
         | Inr u \<Rightarrow>
             Inr \<lparr>tool = ''zstd'', args = [''-d'', source_abs, ''-o'', target_abs],
                  working_dir = []\<rparr>)
      else if src_type = ARCHIVE_XAR then
        ([Probe ''xar''],
         case require_tool h ''xar'' ''xar'' of
           Inl e \<Rightarrow> Inl e
         | Inr u \<Rightarrow>
             Inr \<lparr>tool = ''xar'', args = [''-xf'', source_abs, ''-C'', target_abs],
                  working_dir = []\<rparr>)
      else ([], throw_error UNKNOWN_FORMAT
                  [(''INFO'', ''Unsupported source format for decompression.'')]))"

definition decompress ::
  "filesystem \<Rightarrow> host \<Rightarrow> string \<Rightarrow> string \<Rightarrow> FileType \<Rightarrow> string \<Rightarrow> Options
     \<Rightarrow> event list \<times> (exn + unit)" where
  "decompress fs h source_path_str target_dir_path src_type pw opts =
     (if \<not> exists fs target_dir_path \<and> create_directories_fails fs target_dir_path then
        ([], throw_error INVALID_TARGET [(''PATH'', target_dir_path)])
      else case decompress_command fs h source_path_str target_dir_path src_type pw opts of
        (evs, Inl e) \<Rightarrow> (evs, Inl e)
      | (evs, Inr cmd) \<Rightarrow>
          (let result = exit_status h (tool cmd) (args cmd) (working_dir cmd);
               started = [Print ''decompressing'' [], Run (tool cmd) (args cmd) (working_dir cmd)]
           in if result \<noteq> 0 then
                (evs @ started,
                 throw_error OPERATION_FAILED
                   [(''COMMAND'', tool cmd), (''EXIT_CODE'', int_to_string result)])
              else (evs @ started @ [Print ''operation_complete'' []], Inr ())))"

section \<open>The interactive dialogue\<close>

text \<open>
  A step of the dialogue gives what it prints and either the exception thrown or its
  value; \<open>and_then\<close> goes on with the value, and \<open>emit\<close> prints before a step.
\<close>

definition and_then ::
  "event list \<times> (exn + 'a) \<Rightarrow> ('a \<Rightarrow> event list \<times> (exn + 'b)) \<Rightarrow> event list \<times> (exn + 'b)" where
  "and_then m f =
     (case m of
        (evs, Inl e) \<Rightarrow> (evs, Inl e)
      | (evs, Inr x) \<Rightarrow> (case f x of (evs', r) \<Rightarrow> (evs @ evs', r)))"

definition emit :: "event list \<Rightarrow> event list \<times> (exn + 'a) \<Rightarrow> event list \<times> (exn + 'a)" where
  "emit evs m = (case m of (evs', r) \<Rightarrow> (evs @ evs', r))"

text \<open>\<open>interactive::get_input\<close>: the next line without the blanks, tabs, line feeds and
  carriage returns around it, and the lines left; the exception when the input is closed.\<close>

definition get_input :: "string list \<Rightarrow> exn + string \<times> string list" where
  "get_input lines =
     (case lines of
        [] \<Rightarrow> Inl input_stream_closed
      | input # rest \<Rightarrow> Inr (rev (dropWhile is_space (rev (dropWhile is_space input))), rest))"

text \<open>
  \<open>std::stoi\<close>: white space is skipped, then a sign and the longest run of decimal digits
  are read; \<open>None\<close> stands for \<open>std::invalid_argument\<close> (no digit) and for
  \<open>std::out_of_range\<close> (not an \<open>int\<close> of 32 bits).
\<close>

definition isspace :: "char \<Rightarrow> bool" where
  "isspace c = (c \<in> set [CHR '' '', CHR 0x09, CHR 0x0A, CHR 0x0B, CHR 0x0C, CHR 0x0D])"

definition digit_value :: "char \<Rightarrow> int" where
  "digit_value c = int (length (takeWhile (\<lambda>d. d \<noteq> c) ''0123456789''))"

definition stoi :: "string \<Rightarrow> int option" where
  "stoi str =
     (let t = dropWhile isspace str;
          signed = (t \<noteq> [] \<and> (hd t = CHR ''-'' \<or> hd t = CHR ''+''));
          digits = takeWhile isdigit (if signed then tl t else t);
          magnitude = foldl (\<lambda>a c. 10 * a + digit_value c) 0 digits;
          v = (if t \<noteq> [] \<and> hd t = CHR ''-'' then - magnitude else magnitude)
      in if digits = [] then None
         else if v < - (2 ^ 31) \<or> 2 ^ 31 - 1 < v then None
         else Some v)"

text \<open>\<open>get_choice\<close>: the loop \<open>while (true)\<close> ends with a choice in the range or with the end
  of the input.\<close>

fun get_choice ::
  "int \<Rightarrow> int \<Rightarrow> string list \<Rightarrow> event list \<times> (exn + int \<times> string list)" where
  "get_choice min_val max_val [] = ([Print ''> '' []], Inl input_stream_closed)"
| "get_choice min_val max_val (input # rest) =
     (case stoi (rev (dropWhile is_space (rev (dropWhile is_space input)))) of
        None \<Rightarrow> emit [Print ''> '' [], Print ''invalid_choice'' []] (get_choice min_val max_val rest)
      | Some choice \<Rightarrow>
          if min_val \<le> choice \<and> choice \<le> max_val then ([Print ''> '' []], Inr (choice, rest))
          else emit [Print ''> '' [], Print ''invalid_choice'' []]
                 (get_choice min_val max_val rest))"

text \<open>\<open>get_confirmation\<close>: the prompt, then lines are read until one starts with y or n, in
  either case.\<close>

fun confirmation_loop :: "string list \<Rightarrow> event list \<times> (exn + bool \<times> string list)" where
  "confirmation_loop [] = ([], Inl input_stream_closed)"
| "confirmation_loop (line # rest) =
     (let input = rev (dropWhile is_space (rev (dropWhile is_space line))) in
      if input \<noteq> [] \<and> tolower (hd input) = CHR ''y'' then ([], Inr (True, rest))
      else if input \<noteq> [] \<and> tolower (hd input) = CHR ''n'' then ([], Inr (False, rest))
      else emit [Print ''invalid_choice'' [], Print '' (y/n): '' []] (confirmation_loop rest))"

definition get_confirmation ::
  "string \<Rightarrow> (string \<times> string) list \<Rightarrow> string list \<Rightarrow> event list \<times> (exn + bool \<times> string list)" where
  "get_confirmation prompt_key placeholders lines =
     emit [Print prompt_key placeholders] (confirmation_loop lines)"

text \<open>
  \<open>get_password_interactively\<close>: the prompt is printed and a password is read from the
  terminal; at the end of the input the password read is empty.  The echo of the
  characters typed is not recorded.
\<close>

definition get_password_interactively ::
  "string \<Rightarrow> string list \<Rightarrow> event list \<times> string \<times> string list" where
  "get_password_interactively prompt typed =
     ([Print prompt []], case typed of [] \<Rightarrow> ([], []) | p # rest \<Rightarrow> (p, rest))"

text \<open>The loop that asks for a new password twice, until both entries are the same.\<close>

fun set_password :: "string list \<Rightarrow> event list \<times> string \<times> string list" where
  "set_password [] = ([Print ''enter_password'' [], Print ''confirm_password'' []], [], [])"
| "set_password [p1] =
     (if p1 = [] then ([Print ''enter_password'' [], Print ''confirm_password'' []], [], [])
      else ([Print ''enter_password'' [], Print ''confirm_password'' [],
             Print ''password_mismatch'' [],
             Print ''enter_password'' [], Print ''confirm_password'' []], [], []))"
| "set_password (p1 # p2 # rest) =
     (if p1 = p2 then ([Print ''enter_password'' [], Print ''confirm_password'' []], p1, rest)
      else case set_password rest of
        (evs, r) \<Rightarrow>
          (Print ''enter_password'' [] # Print ''confirm_password'' []
             # Print ''password_mismatch'' [] # evs, r))"

definition get_file_type_string :: "FileType \<Rightarrow> string" where
  "get_file_type_string t =
     (case t of
        REGULAR_FILE \<Rightarrow> ''Regular File'' | DIRECTORY \<Rightarrow> ''Directory''
      | ARCHIVE_TAR \<Rightarrow> ''TAR Archive'' | ARCHIVE_TAR_GZ \<Rightarrow> ''TAR.GZ Archive''
      | ARCHIVE_TAR_BZ2 \<Rightarrow> ''TAR.BZ2 Archive'' | ARCHIVE_TAR_XZ \<Rightarrow> ''TAR.XZ Archive''
      | ARCHIVE_ZIP \<Rightarrow> ''ZIP Archive'' | ARCHIVE_RAR \<Rightarrow> ''RAR Archive''
      | ARCHIVE_7Z \<Rightarrow> ''7Z Archive'' | ARCHIVE_LZ4 \<Rightarrow> ''LZ4 Archive''
      | ARCHIVE_ZSTD \<Rightarrow> ''ZSTD Archive'' | ARCHIVE_XAR \<Rightarrow> ''XAR Archive''
      | UNKNOWN \<Rightarrow> ''Unknown Type'')"

text \<open>The menu of formats: the key of the entry, the format, and whether it takes a password.\<close>

record MenuItem =
  menu_key :: string
  menu_type :: FileType
  supports_password :: bool

definition formats :: "MenuItem list" where
  "formats =
     [\<lparr>menu_key = ''format_tar_gz'', menu_type = ARCHIVE_TAR_GZ, supports_password = False\<rparr>,
      \<lparr>menu_key = ''format_zip'', menu_type = ARCHIVE_ZIP, supports_password = True\<rparr>,
      \<lparr>menu_key = ''format_7z'', menu_type = ARCHIVE_7Z, supports_password = True\<rparr>,
      \<lparr>menu_key = ''format_tar'', menu_type = ARCHIVE_TAR, supports_password = False\<rparr>,
      \<lparr>menu_key = ''format_tar_bz2'', menu_type = ARCHIVE_TAR_BZ2, supports_password = False\<rparr>,
      \<lparr>menu_key = ''format_tar_xz'', menu_type = ARCHIVE_TAR_XZ, supports_password = False\<rparr>,
      \<lparr>menu_key = ''format_lz4'', menu_type = ARCHIVE_LZ4, supports_password = False\<rparr>,
      \<lparr>menu_key = ''format_zstd'', menu_type = ARCHIVE_ZSTD, supports_password = False\<rparr>,
      \<lparr>menu_key = ''format_xar'', menu_type = ARCHIVE_XAR, supports_password = False\<rparr>]"

text \<open>
  \<open>interactive::run\<close> in its parts.  First the source, asked for when the command line gave
  none, and its type.
\<close>

definition ask_source ::
  "filesystem \<Rightarrow> Options \<Rightarrow> string list
     \<Rightarrow> event list \<times> (exn + string \<times> FileType \<times> string list)" where
  "ask_source fs opts lines =
     and_then (if source_path opts = []
                 then ([Print ''Please enter source path: '' []], get_input lines)
               else ([], Inr (source_path opts, lines)))
       (\<lambda>(source, lines').
          case recognize_source_type fs source of
            Inl e \<Rightarrow> ([], Inl e)
          | Inr src_type \<Rightarrow>
              ([Print ''Source: ''
                  [(''SOURCE_PATH'', source), (''TYPE'', get_file_type_string src_type)]],
               Inr (source, src_type, lines')))"

text \<open>The operation detected from the type of the source, and the one chosen instead.\<close>

definition ask_operation ::
  "FileType \<Rightarrow> string list \<Rightarrow> event list \<times> (exn + OperationType \<times> string list)" where
  "ask_operation src_type lines =
     (let op_type = (if src_type = DIRECTORY \<or> src_type = REGULAR_FILE then COMPRESS
                     else DECOMPRESS)
      in and_then
           ([Print ''Detected operation: ''
               [(''OPERATION'', if op_type = COMPRESS then ''Compress'' else ''Decompress'')]],
            get_input lines)
           (\<lambda>(change_op_input, lines').
              if change_op_input \<noteq> [] \<and> tolower (hd change_op_input) = CHR ''y'' then
                and_then
                  (emit [Print ''ask_operation'' [], Print ''operation_compress'' [],
                         Print ''operation_decompress'' []]
                     (get_choice 1 2 lines'))
                  (\<lambda>(choice, lines''). ([], Inr (if choice = 1 then COMPRESS else DECOMPRESS, lines'')))
              else ([], Inr (op_type, lines'))))"

text \<open>
  The questions for a compression: the format, the target, and a password for a format
  that takes one.  The result is the format, the target, the password, the lines and the
  passwords not yet read.
\<close>

definition ask_compress ::
  "Options \<Rightarrow> string list \<Rightarrow> string list
     \<Rightarrow> event list \<times> (exn + FileType \<times> string \<times> string \<times> string list \<times> string list)" where
  "ask_compress opts lines typed =
     and_then
       (emit (Print ''ask_format'' []
                # map (\<lambda>i. Print (menu_key (formats ! i)) [(''NUMBER'', to_string (i + 1))])
                    [0 ..< length formats])
          (get_choice 1 (int (length formats)) lines))
       (\<lambda>(choice, lines1).
          let selected_format = formats ! nat (choice - 1) in
          and_then ([Print ''Please enter target archive path: '' []], get_input lines1)
            (\<lambda>(target, lines2).
               if target = [] then
                 ([], throw_error INVALID_TARGET [(''REASON'', ''Target path cannot be empty'')])
               else if supports_password selected_format \<and> password opts = [] then
                 and_then (get_confirmation ''ask_set_password'' [] lines2)
                   (\<lambda>(yes, lines3).
                      if yes then
                        (case set_password typed of
                           (evs, pw, typed') \<Rightarrow>
                             (evs, Inr (menu_type selected_format, target, pw, lines3, typed')))
                      else ([], Inr (menu_type selected_format, target, password opts, lines3, typed)))
               else ([], Inr (menu_type selected_format, target, password opts, lines2, typed))))"

text \<open>The questions for a decompression: the password and the target directory.\<close>

definition ask_decompress ::
  "Options \<Rightarrow> string list \<Rightarrow> string list
     \<Rightarrow> event list \<times> (exn + string \<times> string \<times> string list \<times> string list)" where
  "ask_decompress opts lines typed =
     and_then
       (if password opts = [] then
          and_then (get_confirmation ''ask_has_password'' [] lines)
            (\<lambda>(yes, lines1).
               if yes then
                 (case get_password_interactively ''enter_password'' typed of
                    (evs, pw, typed') \<Rightarrow> (evs, Inr (pw, lines1, typed')))
               else ([], Inr (password opts, lines1, typed)))
        else ([], Inr (password opts, lines, typed)))
       (\<lambda>(pw, lines1, typed1).
          and_then ([Print ''Please enter target directory: '' []], get_input lines1)
            (\<lambda>(target, lines2).
               ([], Inr (if target = [] then ''.'' else target, pw, lines2, typed1))))"

text \<open>
  All the questions before the target is resolved: the source, its type, the operation,
  the format of the target (\<open>UNKNOWN\<close> for a decompression), the target, the password and
  the lines not yet read.
\<close>

definition ask ::
  "filesystem \<Rightarrow> Options \<Rightarrow> string list \<Rightarrow> string list
     \<Rightarrow> event list \<times>
        (exn + string \<times> FileType \<times> OperationType \<times> FileType \<times> string \<times> string \<times> string list)" where
  "ask fs opts lines typed =
     and_then (emit [Print ''interactive_mode'' []] (ask_source fs opts lines))
       (\<lambda>(source, src_type, lines1).
          and_then (ask_operation src_type lines1)
            (\<lambda>(op_type, lines2).
               if op_type = COMPRESS then
                 and_then (ask_compress opts lines2 typed)
                   (\<lambda>(target_format, target, pw, lines3, typed').
                      ([], Inr (source, src_type, op_type, target_format, target, pw, lines3)))
               else
                 and_then (ask_decompress opts lines2 typed)
                   (\<lambda>(target, pw, lines3, typed').
                      ([], Inr (source, src_type, op_type, UNKNOWN, target, pw, lines3)))))"

text \<open>
  \<open>interactive::run\<close>: after the questions an existing target is resolved (with the
  decisions of the \<open>user\<close>, as on the command line), the user is asked whether the source
  is to be deleted, the operation is done, and the source deleted.  No step compares the
  source with the target.
\<close>

definition run ::
  "filesystem \<Rightarrow> host \<Rightarrow> user \<Rightarrow> string list \<Rightarrow> string list \<Rightarrow> Options
     \<Rightarrow> (event list \<times> (exn + unit)) option" where
  "run fs h u lines typed opts =
     (case ask fs opts lines typed of
        (evs, Inl e) \<Rightarrow> Some (evs, Inl e)
      | (evs, Inr (source, src_type, op_type, target_format, target, pw, lines')) \<Rightarrow>
          (case resolve_existing_target fs target u of
             (evs1, Inl e) \<Rightarrow> Some (evs @ evs1, Inl e)
           | (evs1, Inr (False, t, fs')) \<Rightarrow>
               Some (evs @ evs1 @ [Print ''operation_canceled'' []], Inr ())
           | (evs1, Inr (True, t, fs')) \<Rightarrow>
               (case get_confirmation ''ask_delete_source'' [(''SOURCE_PATH'', source)] lines' of
                  (evs2, Inl e) \<Rightarrow> Some (evs @ evs1 @ evs2, Inl e)
                | (evs2, Inr (delete_source, lines'')) \<Rightarrow>
                    (let opts' = opts\<lparr>source_path := source, target_path := t, password := pw\<rparr> in
                     case (if op_type = COMPRESS
                             then compress_single fs' h source t target_format pw opts'
                           else Some (decompress fs' h source t src_type pw opts')) of
                       None \<Rightarrow> None
                     | Some (evs3, Inl e) \<Rightarrow> Some (evs @ evs1 @ evs2 @ evs3, Inl e)
                     | Some (evs3, Inr v) \<Rightarrow>
                         Some (evs @ evs1 @ evs2 @ evs3 @
                               (if delete_source then
                                  [Print ''Deleting source: '' [(''SOURCE_PATH'', source)],
                                   if remove_fails fs' source
                                     then PrintErr ''Warning: Failed to delete source''
                                            [(''SOURCE_PATH'', source)]
                                   else Print ''Source deleted.'' []]
                                else []),
                               Inr ())))))"

section \<open>The command line\<close>

text \<open>
  \<open>main\<close> from the parsed options on (\<open>args::parse\<close> is not described).  With the
  option \<open>-p\<close> the password is asked for first; then an interactive run goes to the
  dialogue, and a run from the command line to one of the two branches below.  The forced
  format, when there is one, replaces the type found.
\<close>

definition forced_format :: "Options \<Rightarrow> FileType \<Rightarrow> exn + FileType" where
  "forced_format opts found =
     (if force_format opts \<noteq> [] then
        (let forced_type = parse_format_string (force_format opts) in
         if forced_type = UNKNOWN then
           throw_error UNKNOWN_FORMAT
             [(''INFO'', ''Invalid format specified: '' @ force_format opts)]
         else Inr forced_type)
      else Inr found)"

definition format_undetermined :: "exn + 'a" where
  "format_undetermined =
     throw_error UNKNOWN_FORMAT
       [(''INFO'', ''Target format could not be determined. Please specify --format or use archive extension in target path.'')]"

definition canceled :: "event list" where
  "canceled = [Print ''operation_canceled'' [], Print ''goodbye'' []]"

text \<open>The branch of \<open>main\<close> for more than one source path.\<close>

definition multi_source ::
  "filesystem \<Rightarrow> host \<Rightarrow> user \<Rightarrow> Options \<Rightarrow> (event list \<times> (exn + unit)) option" where
  "multi_source fs h u opts =
     (if exists fs (target_path opts) \<and>
         list_ex (\<lambda>src. exists fs src \<and> equivalent fs src (target_path opts)) (source_paths opts)
        then Some ([], throw_error SAME_PATH [])
      else case forced_format opts (recognize_by_extension (target_path opts)) of
        Inl e \<Rightarrow> Some ([], Inl e)
      | Inr target_type \<Rightarrow>
          if target_type = UNKNOWN then Some ([], format_undetermined)
          else case resolve_existing_target fs (target_path opts) u of
            (evs, Inl e) \<Rightarrow> Some (evs, Inl e)
          | (evs, Inr (False, t, fs')) \<Rightarrow> Some (evs @ canceled, Inr ())
          | (evs, Inr (True, t, fs')) \<Rightarrow>
              (case compress fs' h
                      (map (\<lambda>src. \<lparr>path = src, include_contents = False\<rparr>) (source_paths opts))
                      t target_type (password opts) opts of
                 None \<Rightarrow> None
               | Some (evs', Inl e) \<Rightarrow> Some (evs @ evs', Inl e)
               | Some (evs', Inr v) \<Rightarrow> Some (evs @ evs' @ [Print ''goodbye'' []], Inr ())))"

text \<open>The branch of \<open>main\<close> for one source path.\<close>

definition single_source ::
  "filesystem \<Rightarrow> host \<Rightarrow> user \<Rightarrow> Options \<Rightarrow> (event list \<times> (exn + unit)) option" where
  "single_source fs h u opts =
     (if exists fs (source_path opts) \<and> exists fs (target_path opts) \<and>
         equivalent fs (source_path opts) (target_path opts)
        then Some ([], throw_error SAME_PATH [])
      else case recognize fs (source_path opts) (target_path opts) of
        Inl e \<Rightarrow> Some ([], Inl e)
      | Inr result \<Rightarrow>
          (case forced_format opts
                  (if operation result = COMPRESS then target_type_hint result
                   else source_type result) of
             Inl e \<Rightarrow> Some ([], Inl e)
           | Inr fmt \<Rightarrow>
               if operation result = COMPRESS \<and> fmt = UNKNOWN then Some ([], format_undetermined)
               else case resolve_existing_target fs (target_path opts) u of
                 (evs, Inl e) \<Rightarrow> Some (evs, Inl e)
               | (evs, Inr (False, t, fs')) \<Rightarrow> Some (evs @ canceled, Inr ())
               | (evs, Inr (True, t, fs')) \<Rightarrow>
                   (case (if operation result = COMPRESS
                            then compress_single fs' h (source_path opts) t fmt (password opts) opts
                          else Some (decompress fs' h (source_path opts) t fmt (password opts) opts)) of
                      None \<Rightarrow> None
                    | Some (evs', Inl e) \<Rightarrow> Some (evs @ evs', Inl e)
                    | Some (evs', Inr v) \<Rightarrow> Some (evs @ evs' @ [Print ''goodbye'' []], Inr ()))))"

definition main_body ::
  "filesystem \<Rightarrow> host \<Rightarrow> user \<Rightarrow> Options \<Rightarrow> (event list \<times> (exn + unit)) option" where
  "main_body fs h u opts =
     (if show_help opts then Some ([Print ''help'' []], Inr ())
      else if show_version opts then Some ([Print ''version'' []], Inr ())
      else case (if password_prompt opts
                   then get_password_interactively ''enter_password'' (typed_passwords h)
                 else ([], password opts, typed_passwords h)) of
        (asked, pw, typed) \<Rightarrow>
          (let opts' = opts\<lparr>password := pw\<rparr> in
           case (if interactive_mode opts' then
                   (case run fs h u (typed_lines h) typed opts' of
                      None \<Rightarrow> None
                    | Some (evs, Inl e) \<Rightarrow> Some (evs, Inl e)
                    | Some (evs, Inr v) \<Rightarrow> Some (evs @ [Print ''goodbye'' []], Inr ()))
                 else if length (source_paths opts') > 1 then multi_source fs h u opts'
                 else single_source fs h u opts') of
             None \<Rightarrow> None
           | Some (evs, r) \<Rightarrow> Some (asked @ evs, r)))"

text \<open>The handlers of \<open>main\<close>: what is printed, and the exit status.\<close>

definition main :: "filesystem \<Rightarrow> host \<Rightarrow> user \<Rightarrow> Options \<Rightarrow> (event list \<times> int) option" where
  "main fs h u opts =
     (case main_body fs h u opts of
        None \<Rightarrow> None
      | Some (evs, Inr v) \<Rightarrow> Some (evs, 0)
      | Some (evs, Inl (HitpagException c key placeholders)) \<Rightarrow>
          Some (evs @ [PrintErr key placeholders], code_value c)
      | Some (evs, Inl (RuntimeError what)) \<Rightarrow>
          Some (evs @ [PrintErr ''An unexpected error occurred: '' [(''WHAT'', what)]],
                code_value UNKNOWN_ERROR))"

section \<open>The signatures as the specification lists them\<close>

text \<open>
  The specification's table of leading signatures, in its order of precedence, with the
  format each one stands for; \<open>first_signature\<close> is the format of the first signature that
  the content starts with, and \<open>UNKNOWN\<close> when it starts with none.  These follow the
  specification's words and are compared with \<open>header_type\<close> below.
\<close>

definition signature_table :: "(byte list \<times> FileType) list" where
  "signature_table =
     [([0x50, 0x4B, 0x03, 0x04], ARCHIVE_ZIP),
      ([0x50, 0x4B, 0x05, 0x06], ARCHIVE_ZIP),
      ([0x50, 0x4B, 0x01, 0x02], ARCHIVE_ZIP),
      ([0x52, 0x61, 0x72, 0x21], ARCHIVE_RAR),
      ([0x37, 0x7A, 0xBC, 0xAF, 0x27, 0x1C], ARCHIVE_7Z),
      ([0x1F, 0x8B], ARCHIVE_TAR_GZ),
      ([0x42, 0x5A, 0x68], ARCHIVE_TAR_BZ2),
      ([0xFD, 0x37, 0x7A, 0x58, 0x5A, 0x00], ARCHIVE_TAR_XZ),
      ([0x04, 0x22, 0x4D, 0x18], ARCHIVE_LZ4),
      ([0x28, 0xB5, 0x2F, 0xFD], ARCHIVE_ZSTD),
      ([0x22, 0xB5, 0x2F, 0xFD], ARCHIVE_ZSTD)]"

fun first_signature :: "(byte list \<times> FileType) list \<Rightarrow> byte list \<Rightarrow> FileType" where
  "first_signature [] content = UNKNOWN"
| "first_signature ((sig, t) # rest) content =
     (if take (length sig) content = sig then t else first_signature rest content)"

text \<open>The tar marker at offset 257, and the heuristic for a tar block without it: the first
  100 bytes hold a byte that is not zero, and every such byte is printable.\<close>

definition ustar_at_257 :: "byte list \<Rightarrow> bool" where
  "ustar_at_257 content = (take 5 (drop 257 content) = ustar)"

definition legacy_tar_name :: "byte list \<Rightarrow> bool" where
  "legacy_tar_name content =
     (list_ex (\<lambda>b. b \<noteq> 0) (take 100 content) \<and>
      list_all (\<lambda>b. b = 0 \<or> (32 \<le> b \<and> b \<le> 126)) (take 100 content))"

section \<open>Example file systems, hosts and users\<close>

text \<open>The elements of a path name between its separators.\<close>

fun split_elements :: "string \<Rightarrow> string \<Rightarrow> string list" where
  "split_elements acc [] = (if acc = [] then [] else [acc])"
| "split_elements acc (c # cs) =
     (if c = CHR ''/'' then (if acc = [] then [] else [acc]) @ split_elements [] cs
      else split_elements (acc @ [c]) cs)"

text \<open>
  A file system given by the kinds and the contents of some absolute or relative path names:
  every other path does not exist, each listed path is an entry of its own, a path name is
  canonical as it stands, relative names are below \<open>/cwd\<close>, and removing a file and creating a
  directory succeed.
\<close>

definition example_fs :: "(string \<times> file_kind) list \<Rightarrow> (string \<times> byte list) list \<Rightarrow> filesystem" where
  "example_fs kinds contents =
     \<lparr>kind = (\<lambda>p. case map_of kinds p of Some k \<Rightarrow> k | None \<Rightarrow> NotFound),
      bytes_of = map_of contents,
      ident = (\<lambda>p. length (takeWhile (\<lambda>q. q \<noteq> p) (map fst kinds))),
      weakly_canonical = split_elements [],
      absolute = (\<lambda>p. if p \<noteq> [] \<and> hd p = CHR ''/'' then p else ''/cwd/'' @ p),
      remove_fails = (\<lambda>p. False),
      create_directories_fails = (\<lambda>p. False)\<rparr>"

text \<open>A host on which exactly the listed tools are found and every run succeeds, with
  nothing typed.\<close>

definition example_host :: "string list \<Rightarrow> host" where
  "example_host tools =
     \<lparr>tool_available = (\<lambda>t. t \<in> set tools),
      exit_status = (\<lambda>t a w. 0),
      typed_passwords = [],
      typed_lines = []\<rparr>"

definition example_options :: "string list \<Rightarrow> string \<Rightarrow> Options" where
  "example_options sources target =
     \<lparr>interactive_mode = False, show_help = False, show_version = False,
      source_path = (if sources = [] then [] else hd sources), source_paths = sources,
      target_path = target, password = [], password_prompt = False, compression_level = 0,
      thread_count = 0, verbose = False, verify = False, force_format = []\<rparr>"

section \<open>Properties of the path operations\<close>

lemma takeWhile_neq_all: "c \<notin> set xs \<Longrightarrow> takeWhile (\<lambda>x. x \<noteq> c) xs = xs"
  by (induction xs) auto

lemma takeWhile_neq_stop: "c \<notin> set xs \<Longrightarrow> takeWhile (\<lambda>x. x \<noteq> c) (xs @ c # ys) = xs"
  by (induction xs) auto

lemma dropWhile_neq_stop: "c \<notin> set xs \<Longrightarrow> dropWhile (\<lambda>x. x \<noteq> c) (xs @ c # ys) = c # ys"
  by (induction xs) auto

lemma split_path: "dirpart p @ filename p = p"
proof -
  have "rev (dropWhile (\<lambda>c. c \<noteq> CHR ''/'') (rev p)) @ rev (takeWhile (\<lambda>c. c \<noteq> CHR ''/'') (rev p))
        = rev (takeWhile (\<lambda>c. c \<noteq> CHR ''/'') (rev p) @ dropWhile (\<lambda>c. c \<noteq> CHR ''/'') (rev p))"
    by (simp only: rev_append)
  also have "\<dots> = p" by (simp only: takeWhile_dropWhile_id rev_rev_ident)
  finally show ?thesis by (simp only: dirpart_def filename_def)
qed

lemma filename_no_sep: "CHR ''/'' \<notin> set (filename p)"
  unfolding filename_def
  by (metis (mono_tags, lifting) set_rev set_takeWhileD)

lemma filename_append:
  assumes "CHR ''/'' \<notin> set f" "d = [] \<or> last d = CHR ''/''"
  shows "filename (d @ f) = f"
proof (cases d rule: rev_cases)
  case Nil
  then show ?thesis using assms(1) by (simp add: filename_def takeWhile_neq_all)
next
  case (snoc ys y)
  with assms(2) have y: "y = CHR ''/''" by simp
  have "CHR ''/'' \<notin> set (rev f)" using assms(1) by simp
  then have "takeWhile (\<lambda>c. c \<noteq> CHR ''/'') (rev f @ CHR ''/'' # rev ys) = rev f"
    by (rule takeWhile_neq_stop)
  then show ?thesis by (simp add: filename_def snoc y)
qed

lemma dirpart_append:
  assumes "CHR ''/'' \<notin> set f" "d = [] \<or> last d = CHR ''/''"
  shows "dirpart (d @ f) = d"
proof (cases d rule: rev_cases)
  case Nil
  have "CHR ''/'' \<notin> set (rev f)" using assms(1) by simp
  then have "dropWhile (\<lambda>c. c \<noteq> CHR ''/'') (rev f) = []"
    by (induction "rev f") auto
  then show ?thesis by (simp add: dirpart_def Nil)
next
  case (snoc ys y)
  with assms(2) have y: "y = CHR ''/''" by simp
  have "CHR ''/'' \<notin> set (rev f)" using assms(1) by simp
  then have "dropWhile (\<lambda>c. c \<noteq> CHR ''/'') (rev f @ CHR ''/'' # rev ys) = CHR ''/'' # rev ys"
    by (rule dropWhile_neq_stop)
  then show ?thesis by (simp add: dirpart_def snoc y)
qed

lemma dropWhile_neq_hd: "dropWhile (\<lambda>x. x \<noteq> c) xs = [] \<or> hd (dropWhile (\<lambda>x. x \<noteq> c) xs) = c"
  by (induction xs) auto

lemma dirpart_ends: "dirpart p = [] \<or> last (dirpart p) = CHR ''/''"
  using dropWhile_neq_hd[of "CHR ''/''" "rev p"]
  by (auto simp: dirpart_def last_rev)

lemma find_last_of_append:
  "c \<notin> set e \<Longrightarrow> find_last_of (s @ c # e) c = Some (length s)"
  unfolding find_last_of_def
  by (simp add: takeWhile_neq_stop)

lemma find_last_of_SomeD:
  assumes "find_last_of f c = Some pos"
  shows "pos < length f \<and> f ! pos = c \<and> c \<notin> set (drop (Suc pos) f)"
proof -
  from assms have cin: "c \<in> set f" by (auto simp: find_last_of_def split: if_splits)
  then obtain s e where f: "f = s @ c # e" and ne: "c \<notin> set e"
    by (meson split_list_last)
  with assms find_last_of_append[of c e s] have "pos = length s" by simp
  with f ne show ?thesis by simp
qed

lemma filename_stem_extension: "filename p = stem p @ extension p"
  unfolding stem_def Let_def
  by (auto simp: extension_def Let_def split: option.splits dest!: find_last_of_SomeD)

lemma extension_shape:
  assumes "extension p \<noteq> []"
  shows "\<exists>e. extension p = CHR ''.'' # e \<and> CHR ''.'' \<notin> set e \<and> stem p \<noteq> []"
proof -
  let ?f = "filename p"
  from assms obtain pos where fl: "find_last_of ?f (CHR ''.'') = Some pos" and pos: "pos \<noteq> 0"
    and ext: "extension p = drop pos ?f"
    by (auto simp: extension_def Let_def split: option.splits if_splits)
  from find_last_of_SomeD[OF fl] have lt: "pos < length ?f" and at: "?f ! pos = CHR ''.''"
    and nd: "CHR ''.'' \<notin> set (drop (Suc pos) ?f)" by auto
  have "drop pos ?f = CHR ''.'' # drop (Suc pos) ?f"
    using lt at by (metis Cons_nth_drop_Suc)
  moreover have "stem p = take pos ?f"
    using lt by (simp add: stem_def Let_def ext)
  ultimately show ?thesis using nd pos lt ext by auto
qed

lemma extension_of_name:
  assumes "s \<noteq> []" "CHR ''.'' \<notin> set e" "CHR ''/'' \<notin> set (s @ e)" "d = [] \<or> last d = CHR ''/''"
    and "e \<noteq> []"
  shows "extension (d @ s @ CHR ''.'' # e) = CHR ''.'' # e"
    and "stem (d @ s @ CHR ''.'' # e) = s"
proof -
  have fn: "filename (d @ s @ CHR ''.'' # e) = s @ CHR ''.'' # e"
    using assms by (intro filename_append) auto
  have fl: "find_last_of (s @ CHR ''.'' # e) (CHR ''.'') = Some (length s)"
    using assms by (simp add: find_last_of_append)
  have ne1: "s @ CHR ''.'' # e \<noteq> ''.''"
    using assms(1) by (cases s) auto
  have ne2: "s @ CHR ''.'' # e \<noteq> ''..''"
  proof
    assume a: "s @ CHR ''.'' # e = ''..''"
    from arg_cong[OF a, of length] have "length s + length e = 1" by simp
    with assms(1) have "e = []" by (cases s) auto
    with assms(5) show False by simp
  qed
  note ne = ne1 ne2
  show ex: "extension (d @ s @ CHR ''.'' # e) = CHR ''.'' # e"
    using assms(1) ne fl by (simp add: extension_def fn Let_def)
  show "stem (d @ s @ CHR ''.'' # e) = s"
    using ex fn by (simp add: stem_def Let_def)
qed

lemma replace_extension_sibling:
  assumes "extension p \<noteq> []" "CHR ''.'' \<notin> set e" "CHR ''/'' \<notin> set e" "e \<noteq> []"
  shows "replace_extension p (CHR ''.'' # e) = dirpart p @ stem p @ CHR ''.'' # e"
    and "stem (replace_extension p (CHR ''.'' # e)) = stem p"
    and "extension (replace_extension p (CHR ''.'' # e)) = CHR ''.'' # e"
    and "dirpart (replace_extension p (CHR ''.'' # e)) = dirpart p"
proof -
  from extension_shape[OF assms(1)] have st: "stem p \<noteq> []" by auto
  have p: "(dirpart p @ stem p) @ extension p = p"
    by (simp only: append_assoc filename_stem_extension [symmetric] split_path)
  have "take (length (a @ b) - length b) (a @ b) = a" for a b :: string
    by simp
  from this[of "dirpart p @ stem p" "extension p"]
  have "take (length p - length (extension p)) p = dirpart p @ stem p"
    by (simp only: p)
  then show re: "replace_extension p (CHR ''.'' # e) = dirpart p @ stem p @ CHR ''.'' # e"
    by (simp add: replace_extension_def)
  have nf: "CHR ''/'' \<notin> set (stem p)"
    using filename_no_sep[of p] filename_stem_extension[of p] by (metis Un_iff set_append)
  have ns: "CHR ''/'' \<notin> set (stem p @ e)"
    using nf assms by simp
  show "stem (replace_extension p (CHR ''.'' # e)) = stem p"
    unfolding re by (rule extension_of_name(2)[OF st assms(2) ns dirpart_ends assms(4)])
  show "extension (replace_extension p (CHR ''.'' # e)) = CHR ''.'' # e"
    unfolding re by (rule extension_of_name(1)[OF st assms(2) ns dirpart_ends assms(4)])
  have "CHR ''/'' \<notin> set (stem p @ CHR ''.'' # e)" using ns by simp
  then show "dirpart (replace_extension p (CHR ''.'' # e)) = dirpart p"
    unfolding re by (rule dirpart_append[OF _ dirpart_ends])
qed

lemmas path_simps = extension_def filename_def find_last_of_def to_lower_def tolower_def stem_def
  has_extension_def has_stem_def replace_extension_def

section \<open>Properties of the program\<close>

subsection \<open>Split ZIP archives\<close>

lemma is_split_zip_unfold:
  "is_split_zip fs p =
     (if is_split_zip_extension (to_lower (extension p)) then True
      else if to_lower (extension p) = ''.zip'' then exists fs (replace_extension p ''.z01'')
      else False)"
  by (auto simp: is_split_zip_def is_split_zip_part_def has_extension_def Let_def
        is_split_zip_extension_def to_lower_def)

lemma tolower_cases:
  "tolower c = CHR ''.'' \<longleftrightarrow> c = CHR ''.''"
  "tolower c = CHR ''z'' \<longleftrightarrow> c = CHR ''z'' \<or> c = CHR ''Z''"
  "tolower c = CHR ''i'' \<longleftrightarrow> c = CHR ''i'' \<or> c = CHR ''I''"
  "tolower c = CHR ''p'' \<longleftrightarrow> c = CHR ''p'' \<or> c = CHR ''P''"
  "isdigit (tolower c) \<longleftrightarrow> c \<in> set ''0123456789''"
  by (auto simp: tolower_def isdigit_def)

lemma four_chars:
  "length (e :: string) = 4 \<longleftrightarrow> (\<exists>a b c d. e = [a, b, c, d])"
  by (auto simp: length_Suc_conv numeral_eq_Suc)

lemma split_part_extension:
  "is_split_zip_extension (to_lower e) \<longleftrightarrow>
     (\<exists>z a b. e = [CHR ''.'', z, a, b] \<and> (z = CHR ''z'' \<or> z = CHR ''Z'') \<and>
              a \<in> set ''0123456789'' \<and> b \<in> set ''0123456789'')"
proof -
  have "is_split_zip_extension (to_lower e) \<longleftrightarrow>
          (\<exists>d z a b. e = [d, z, a, b] \<and> tolower d = CHR ''.'' \<and> tolower z = CHR ''z'' \<and>
                     isdigit (tolower a) \<and> isdigit (tolower b))"
    unfolding is_split_zip_extension_def to_lower_def length_map four_chars by auto
  then show ?thesis unfolding tolower_cases by auto
qed

lemma zip_extension:
  "to_lower e = ''.zip'' \<longleftrightarrow>
     (\<exists>z i q. e = [CHR ''.'', z, i, q] \<and> (z = CHR ''z'' \<or> z = CHR ''Z'') \<and>
              (i = CHR ''i'' \<or> i = CHR ''I'') \<and> (q = CHR ''p'' \<or> q = CHR ''P''))"
proof -
  have "to_lower e = ''.zip'' \<longleftrightarrow>
          (\<exists>d z i q. e = [d, z, i, q] \<and> tolower d = CHR ''.'' \<and> tolower z = CHR ''z'' \<and>
                     tolower i = CHR ''i'' \<and> tolower q = CHR ''p'')"
    unfolding to_lower_def by (auto simp: map_eq_Cons_conv)
  then show ?thesis unfolding tolower_cases by auto
qed

text \<open>
  Claim C5.  A path is a split archive exactly when its extension is a dot, the letter z in
  either case and two decimal digits, whatever the file system holds, or its extension is
  \<open>.zip\<close> in any mix of cases and the path with the extension replaced by \<open>.z01\<close> exists.
  So with any other extension, or none, it is not one.  The replaced path lies in the same
  directory and has the same stem.
\<close>

theorem is_split_zip_characterisation:
  "(is_split_zip fs p \<longleftrightarrow>
      (\<exists>z a b. extension p = [CHR ''.'', z, a, b] \<and> (z = CHR ''z'' \<or> z = CHR ''Z'') \<and>
               a \<in> set ''0123456789'' \<and> b \<in> set ''0123456789'') \<or>
      (\<exists>z i q. extension p = [CHR ''.'', z, i, q] \<and> (z = CHR ''z'' \<or> z = CHR ''Z'') \<and>
               (i = CHR ''i'' \<or> i = CHR ''I'') \<and> (q = CHR ''p'' \<or> q = CHR ''P'')) \<and>
      exists fs (replace_extension p ''.z01'')) \<and>
   (extension p \<noteq> [] \<longrightarrow>
      replace_extension p ''.z01'' = dirpart p @ stem p @ ''.z01'' \<and>
      dirpart (replace_extension p ''.z01'') = dirpart p \<and>
      stem (replace_extension p ''.z01'') = stem p \<and>
      extension (replace_extension p ''.z01'') = ''.z01'')"
proof (intro conjI impI)
  show "is_split_zip fs p \<longleftrightarrow>
      (\<exists>z a b. extension p = [CHR ''.'', z, a, b] \<and> (z = CHR ''z'' \<or> z = CHR ''Z'') \<and>
               a \<in> set ''0123456789'' \<and> b \<in> set ''0123456789'') \<or>
      (\<exists>z i q. extension p = [CHR ''.'', z, i, q] \<and> (z = CHR ''z'' \<or> z = CHR ''Z'') \<and>
               (i = CHR ''i'' \<or> i = CHR ''I'') \<and> (q = CHR ''p'' \<or> q = CHR ''P'')) \<and>
      exists fs (replace_extension p ''.z01'')"
    unfolding is_split_zip_unfold split_part_extension [symmetric] zip_extension [symmetric]
    by simp
next
  assume ne: "extension p \<noteq> []"
  show "replace_extension p ''.z01'' = dirpart p @ stem p @ ''.z01''"
    by (rule replace_extension_sibling(1)[OF ne]) simp_all
  show "dirpart (replace_extension p ''.z01'') = dirpart p"
    by (rule replace_extension_sibling(4)[OF ne]) simp_all
  show "stem (replace_extension p ''.z01'') = stem p"
    by (rule replace_extension_sibling(2)[OF ne]) simp_all
  show "extension (replace_extension p ''.z01'') = ''.z01''"
    by (rule replace_extension_sibling(3)[OF ne]) simp_all
qed


theorem is_split_zip_witness:
  "is_split_zip (example_fs [(''a.zip'', RegularKind), (''a.z01'', RegularKind)] []) ''a.zip'' \<and>
   is_split_zip (example_fs [(''a.zip'', RegularKind), (''a.z01'', RegularKind)] []) ''a.z02'' \<and>
   is_split_zip (example_fs [(''a.zip'', RegularKind)] []) ''a.z02'' \<and>
   is_split_zip (example_fs [] []) ''A.Z01'' \<and>
   is_split_zip (example_fs [(''A.ZIP'', RegularKind), (''A.z01'', RegularKind)] []) ''A.ZIP'' \<and>
   \<not> is_split_zip (example_fs [(''A.ZIP'', RegularKind), (''A.Z01'', RegularKind)] []) ''A.ZIP'' \<and>
   \<not> is_split_zip (example_fs [(''a.zip'', RegularKind)] []) ''a.zip'' \<and>
   \<not> is_split_zip (example_fs [(''a.z0x'', RegularKind)] []) ''a.z0x'' \<and>
   \<not> is_split_zip (example_fs [(''a.z1'', RegularKind)] []) ''a.z1'' \<and>
   \<not> is_split_zip (example_fs [(''a.z012'', RegularKind)] []) ''a.z012'' \<and>
   \<not> is_split_zip (example_fs [(''a.zipx'', RegularKind), (''a.z01'', RegularKind)] []) ''a.zipx'' \<and>
   \<not> is_split_zip (example_fs [(''a.txt'', RegularKind), (''a.z01'', RegularKind)] []) ''a.txt'' \<and>
   \<not> is_split_zip (example_fs [(''a'', RegularKind), (''a.z01'', RegularKind)] []) ''a'' \<and>
   replace_extension ''dir/a.zip'' ''.z01'' = ''dir/a.z01''"
proof -
  have e: "extension ''a.zip'' = ''.zip''" "extension ''a.z02'' = ''.z02''"
    "extension ''A.Z01'' = ''.Z01''" "extension ''A.ZIP'' = ''.ZIP''"
    "extension ''a.z0x'' = ''.z0x''" "extension ''a.z1'' = ''.z1''"
    "extension ''a.z012'' = ''.z012''" "extension ''a.zipx'' = ''.zipx''"
    "extension ''a.txt'' = ''.txt''" "extension ''a'' = []"
    "extension ''dir/a.zip'' = ''.zip''"
    by (simp_all add: extension_def filename_def find_last_of_def)
  have r: "replace_extension ''a.zip'' ''.z01'' = ''a.z01''"
    "replace_extension ''A.ZIP'' ''.z01'' = ''A.z01''"
    "dirpart ''dir/a.zip'' = ''dir/''" "stem ''dir/a.zip'' = ''a''"
    by (simp_all add: replace_extension_def dirpart_def stem_def e filename_def)
  have x: "exists (example_fs [(''a.zip'', RegularKind), (''a.z01'', RegularKind)] []) ''a.z01''"
    "exists (example_fs [(''A.ZIP'', RegularKind), (''A.z01'', RegularKind)] []) ''A.z01''"
    "\<not> exists (example_fs [(''A.ZIP'', RegularKind), (''A.Z01'', RegularKind)] []) ''A.z01''"
    "\<not> exists (example_fs [(''a.zip'', RegularKind)] []) ''a.z01''"
    by (simp_all add: exists_def example_fs_def)
  note c = is_split_zip_characterisation [THEN conjunct1]
  note s = is_split_zip_characterisation [THEN conjunct2, THEN mp]
  show ?thesis
    using c [of "example_fs [(''a.zip'', RegularKind), (''a.z01'', RegularKind)] []" "''a.zip''"]
      c [of "example_fs [(''a.zip'', RegularKind), (''a.z01'', RegularKind)] []" "''a.z02''"]
      c [of "example_fs [(''a.zip'', RegularKind)] []" "''a.z02''"]
      c [of "example_fs [] []" "''A.Z01''"]
      c [of "example_fs [(''A.ZIP'', RegularKind), (''A.z01'', RegularKind)] []" "''A.ZIP''"]
      c [of "example_fs [(''A.ZIP'', RegularKind), (''A.Z01'', RegularKind)] []" "''A.ZIP''"]
      c [of "example_fs [(''a.zip'', RegularKind)] []" "''a.zip''"]
      c [of "example_fs [(''a.z0x'', RegularKind)] []" "''a.z0x''"]
      c [of "example_fs [(''a.z1'', RegularKind)] []" "''a.z1''"]
      c [of "example_fs [(''a.z012'', RegularKind)] []" "''a.z012''"]
      c [of "example_fs [(''a.zipx'', RegularKind), (''a.z01'', RegularKind)] []" "''a.zipx''"]
      c [of "example_fs [(''a.txt'', RegularKind), (''a.z01'', RegularKind)] []" "''a.txt''"]
      c [of "example_fs [(''a'', RegularKind), (''a.z01'', RegularKind)] []" "''a''"]
      s [of "''dir/a.zip''", THEN conjunct1]
    by (simp add: e r x)
qed

lemma stream_read_full:
  "n \<le> length content \<Longrightarrow> stream_read content 0 n = (take n content, n, False)"
  by (simp add: stream_read_def Let_def min_def)

lemma stream_read_short:
  "length content < n \<Longrightarrow> stream_read content 0 n = (content @ replicate (n - length content) 0, length content, True)"
  by (simp add: stream_read_def Let_def)

lemma scan_filename_eq:
  "scan_filename bs h =
     (if list_all (\<lambda>b. b = 0 \<or> (32 \<le> b \<and> b \<le> 126)) bs
        then (True, h \<or> list_ex (\<lambda>b. b \<noteq> 0) bs) else (False, True))"
  by (induction bs arbitrary: h) (auto simp: not_less not_le)

lemma six_bytes:
  assumes "6 \<le> length xs"
  shows "\<exists>a b c d e f r. xs = a # b # c # d # e # f # r"
proof -
  from assms obtain a r1 where 1: "xs = a # r1" "5 \<le> length r1" by (cases xs) auto
  then obtain b r2 where 2: "r1 = b # r2" "4 \<le> length r2" by (cases r1) auto
  then obtain c r3 where 3: "r2 = c # r3" "3 \<le> length r3" by (cases r2) auto
  then obtain d r4 where 4: "r3 = d # r4" "2 \<le> length r4" by (cases r3) auto
  then obtain e r5 where 5: "r4 = e # r5" "1 \<le> length r5" by (cases r4) auto
  then obtain f r6 where 6: "r5 = f # r6" by (cases r5) auto
  from 1 2 3 4 5 6 show ?thesis by blast
qed

lemma header_magic_first_signature:
  assumes "16 \<le> length content"
  shows "header_magic (take 16 content) 16 = first_signature signature_table content"
proof -
  from assms have "6 \<le> length content" by simp
  from six_bytes[OF this] obtain a b c d e f r where content: "content = a # b # c # d # e # f # r"
    by blast
  show ?thesis
    unfolding content header_magic_def signature_table_def
    by simp argo
qed

lemma header_type_long:
  assumes "16 \<le> length content"
  shows "header_type content =
     (if first_signature signature_table content \<noteq> UNKNOWN
        then first_signature signature_table content
      else if 262 \<le> length content \<and> ustar_at_257 content then ARCHIVE_TAR
      else if 512 \<le> length content \<and> legacy_tar_name content then ARCHIVE_TAR
      else UNKNOWN)"
proof -
  have r1: "stream_read content 0 16 = (take 16 content, 16, False)"
    using assms by (rule stream_read_full)
  have g2: "fst (snd (stream_read content 257 6)) \<ge> 5 \<longleftrightarrow> 262 \<le> length content"
    unfolding stream_read_def Let_def by simp arith
  have t2: "take 5 (fst (stream_read content 257 6)) = take 5 (drop 257 content)"
    if "262 \<le> length content"
  proof -
    have "5 \<le> length (take 6 (drop 257 content))" using that by simp
    then have "take 5 (take 6 (drop 257 content) @ z) = take 5 (take 6 (drop 257 content))" for z
      by simp
    from this[of "replicate (6 - length (take 6 (drop 257 content))) 0"]
    show ?thesis unfolding stream_read_def Let_def fst_conv by (simp only: take_take) simp
  qed
  have g3: "fst (snd (stream_read content 0 512)) \<ge> 512 \<longleftrightarrow> 512 \<le> length content"
    unfolding stream_read_def Let_def by simp
  have t3: "take 100 (fst (stream_read content 0 512)) = take 100 content"
    if "512 \<le> length content"
    using that by (simp add: stream_read_def Let_def)
  show ?thesis
    using g2 t2 g3 t3
    by (auto simp: header_type_def r1 header_magic_first_signature[OF assms] Let_def
          split_beta scan_filename_eq ustar_at_257_def legacy_tar_name_def)
qed

lemma header_type_short:
  "length content < 4 \<Longrightarrow> header_type content = UNKNOWN"
  by (simp add: header_type_def stream_read_def Let_def)

subsection \<open>Recognition by header\<close>

text \<open>
  Claim C6, as amended.  A file from which fewer than four bytes can be read is \<open>UNKNOWN\<close> to
  the sniffer, whatever these bytes are, and so is a file that cannot be opened.  For a
  file of at least 16 bytes the checks are made in the order of precedence: the first
  leading signature that matches decides; when none does, the tar marker at offset 257 is
  tried if the file has the 262 bytes it takes and is skipped otherwise; then the
  heuristic on the first block is tried if the file has 512 bytes and is skipped
  otherwise; \<open>UNKNOWN\<close> is the result only when no check matches.
\<close>

theorem recognize_by_header_checks:
  "(bytes_of fs p = None \<longrightarrow> recognize_by_header fs p = UNKNOWN) \<and>
   (\<forall>content. bytes_of fs p = Some content \<longrightarrow>
      (length content < 4 \<longrightarrow> recognize_by_header fs p = UNKNOWN) \<and>
      (16 \<le> length content \<longrightarrow>
         recognize_by_header fs p =
           (if first_signature signature_table content \<noteq> UNKNOWN
              then first_signature signature_table content
            else if 262 \<le> length content \<and> ustar_at_257 content then ARCHIVE_TAR
            else if 512 \<le> length content \<and> legacy_tar_name content then ARCHIVE_TAR
            else UNKNOWN)))"
  by (simp add: recognize_by_header_def header_type_short header_type_long)

theorem recognize_by_header_checks_witness:
  "recognize_by_header
     (example_fs [(''a.bin'', RegularKind)]
        [(''a.bin'', [0x1F, 0x8B, 8, 0, 0, 0, 0, 0, 0, 3, 1, 2, 3, 4, 5, 6])])
     ''a.bin'' = ARCHIVE_TAR_GZ \<and>
   recognize_by_header
     (example_fs [(''b.bin'', RegularKind)] [(''b.bin'', [0x50, 0x4B, 3])]) ''b.bin'' = UNKNOWN"
proof -
  let ?a = "example_fs [(''a.bin'', RegularKind)]
        [(''a.bin'', [0x1F, 0x8B, 8, 0, 0, 0, 0, 0, 0, 3, 1, 2, 3, 4, 5, 6])]"
  let ?b = "example_fs [(''b.bin'', RegularKind)] [(''b.bin'', [0x50, 0x4B, 3])]"
  have a: "bytes_of ?a ''a.bin'' = Some [0x1F, 0x8B, 8, 0, 0, 0, 0, 0, 0, 3, 1, 2, 3, 4, 5, 6]"
    by (simp add: example_fs_def)
  have b: "bytes_of ?b ''b.bin'' = Some [0x50, 0x4B, 3]"
    by (simp add: example_fs_def)
  note ra = recognize_by_header_checks [of ?a "''a.bin''", THEN conjunct2, THEN spec, THEN mp,
      OF a, THEN conjunct2]
  note rb = recognize_by_header_checks [of ?b "''b.bin''", THEN conjunct2, THEN spec, THEN mp,
      OF b, THEN conjunct1]
  from ra have 1: "recognize_by_header ?a ''a.bin'' = ARCHIVE_TAR_GZ"
    by (simp add: signature_table_def)
  from rb have 2: "recognize_by_header ?b ''b.bin'' = UNKNOWN"
    by simp
  from 1 2 show ?thesis by simp
qed

theorem short_gzip_counterexample:
  "first_signature signature_table [0x1F, 0x8B] = ARCHIVE_TAR_GZ \<and>
   recognize_by_header (example_fs [(''a.gz'', RegularKind)] [(''a.gz'', [0x1F, 0x8B])]) ''a.gz''
     = UNKNOWN"
  by (simp add: signature_table_def recognize_by_header_def example_fs_def header_type_def
        stream_read_def)

subsection \<open>The type of a source\<close>

text \<open>
  Claim C1, as amended.  For an existing regular file the sniffer comes first: whenever it
  gives a format, that is the type resolved, the name playing no part; whenever it gives
  \<open>UNKNOWN\<close>, the type is what the extension gives; and when that is \<open>UNKNOWN\<close> too, it is
  \<open>REGULAR_FILE\<close>; an exception is never thrown.  For a file of at least 16 bytes that begins
  with a signature of the table, the type resolved is the format of that signature.  A
  file of fewer than four bytes is typed by its extension alone.
\<close>

theorem recognize_source_type_regular:
  "kind fs p = RegularKind \<longrightarrow>
     recognize_source_type fs p =
       Inr (if recognize_by_header fs p \<noteq> UNKNOWN then recognize_by_header fs p
            else if recognize_by_extension p \<noteq> UNKNOWN then recognize_by_extension p
            else REGULAR_FILE) \<and>
     (\<forall>content. bytes_of fs p = Some content \<longrightarrow>
        (16 \<le> length content \<and> first_signature signature_table content \<noteq> UNKNOWN \<longrightarrow>
           recognize_source_type fs p = Inr (first_signature signature_table content)) \<and>
        (length content < 4 \<longrightarrow>
           recognize_source_type fs p =
             Inr (if recognize_by_extension p \<noteq> UNKNOWN then recognize_by_extension p
                  else REGULAR_FILE)))"
  by (simp add: recognize_source_type_def exists_def is_directory_def is_regular_file_def
        recognize_by_header_def header_type_short header_type_long Let_def)

theorem recognize_source_type_regular_witness:
  "recognize_source_type
     (example_fs [(''a.tar'', RegularKind)]
        [(''a.tar'', [0x50, 0x4B, 3, 4, 20, 0, 0, 0, 8, 0, 0, 0, 0, 0, 0, 0])]) ''a.tar''
     = Inr ARCHIVE_ZIP \<and>
   recognize_source_type
     (example_fs [(''notes.tgz'', RegularKind)] [(''notes.tgz'', [0x68, 0x69])]) ''notes.tgz''
     = Inr ARCHIVE_TAR_GZ \<and>
   recognize_source_type
     (example_fs [(''notes'', RegularKind)] [(''notes'', [0x68, 0x69])]) ''notes''
     = Inr REGULAR_FILE"
proof -
  let ?a = "example_fs [(''a.tar'', RegularKind)]
        [(''a.tar'', [0x50, 0x4B, 3, 4, 20, 0, 0, 0, 8, 0, 0, 0, 0, 0, 0, 0])]"
  let ?b = "example_fs [(''notes.tgz'', RegularKind)] [(''notes.tgz'', [0x68, 0x69])]"
  let ?c = "example_fs [(''notes'', RegularKind)] [(''notes'', [0x68, 0x69])]"
  have a: "kind ?a ''a.tar'' = RegularKind"
    "bytes_of ?a ''a.tar'' = Some [0x50, 0x4B, 3, 4, 20, 0, 0, 0, 8, 0, 0, 0, 0, 0, 0, 0]"
    by (simp_all add: example_fs_def)
  have b: "kind ?b ''notes.tgz'' = RegularKind" "bytes_of ?b ''notes.tgz'' = Some [0x68, 0x69]"
    by (simp_all add: example_fs_def)
  have c: "kind ?c ''notes'' = RegularKind" "bytes_of ?c ''notes'' = Some [0x68, 0x69]"
    by (simp_all add: example_fs_def)
  have e: "recognize_by_extension ''notes.tgz'' = ARCHIVE_TAR_GZ"
    "recognize_by_extension ''notes'' = UNKNOWN"
    by (simp_all add: recognize_by_extension_def path_simps is_split_zip_extension_def isdigit_def)
  note ra = recognize_source_type_regular [of ?a "''a.tar''", THEN mp, OF a(1), THEN conjunct2,
      THEN spec, THEN mp, OF a(2), THEN conjunct1]
  note rb = recognize_source_type_regular [of ?b "''notes.tgz''", THEN mp, OF b(1), THEN conjunct2,
      THEN spec, THEN mp, OF b(2), THEN conjunct2]
  note rc = recognize_source_type_regular [of ?c "''notes''", THEN mp, OF c(1), THEN conjunct2,
      THEN spec, THEN mp, OF c(2), THEN conjunct2]
  from ra have 1: "recognize_source_type ?a ''a.tar'' = Inr ARCHIVE_ZIP"
    by (simp add: signature_table_def)
  from rb have 2: "recognize_source_type ?b ''notes.tgz'' = Inr ARCHIVE_TAR_GZ"
    by (simp add: e)
  from rc have 3: "recognize_source_type ?c ''notes'' = Inr REGULAR_FILE"
    by (simp add: e)
  from 1 2 3 show ?thesis by simp
qed

theorem short_bzip2_counterexample:
  "first_signature signature_table [0x42, 0x5A, 0x68] = ARCHIVE_TAR_BZ2 \<and>
   recognize_source_type
     (example_fs [(''a.zip'', RegularKind)] [(''a.zip'', [0x42, 0x5A, 0x68])]) ''a.zip''
     = Inr ARCHIVE_ZIP"
  by (simp add: signature_table_def recognize_source_type_def exists_def is_directory_def
        is_regular_file_def recognize_by_header_def example_fs_def header_type_def
        stream_read_def recognize_by_extension_def path_simps)

subsection \<open>The operation\<close>

lemma recognize_by_extension_range:
  "recognize_by_extension p \<noteq> REGULAR_FILE \<and> recognize_by_extension p \<noteq> DIRECTORY"
  by (simp add: recognize_by_extension_def Let_def)

lemma recognize_by_extension_empty: "recognize_by_extension [] = UNKNOWN"
  by (simp add: recognize_by_extension_def path_simps)

lemma recognize_hint:
  "(if t \<noteq> [] then recognize_by_extension t else UNKNOWN) = recognize_by_extension t"
  by (simp add: recognize_by_extension_empty)

lemma recognize_unfold:
  "recognize_source_type fs s = Inr st \<Longrightarrow>
   recognize fs s t =
     (if st = DIRECTORY \<or> st = REGULAR_FILE then
        Inr \<lparr>source_type = st, target_type_hint = recognize_by_extension t, operation = COMPRESS\<rparr>
      else if exists fs t \<and> \<not> is_directory fs t then
        throw_error INVALID_TARGET
          [(''PATH'', t), (''REASON'', ''Target for decompression must be a directory.'')]
      else Inr \<lparr>source_type = st, target_type_hint = recognize_by_extension t,
                operation = DECOMPRESS\<rparr>)"
  using recognize_by_extension_range[of t]
  by (simp add: recognize_def recognize_hint Let_def)

text \<open>
  Claim C2.  With the type \<open>st\<close> resolved for the source: if \<open>st\<close> is \<open>DIRECTORY\<close> or
  \<open>REGULAR_FILE\<close>, the operation is \<open>COMPRESS\<close> and the hint is what the extension of the
  target gives; otherwise the operation is \<open>DECOMPRESS\<close>, and \<open>recognize\<close> throws
  \<open>INVALID_TARGET\<close> exactly when the target exists and is not a directory.  On the command
  line with one source, an \<open>UNKNOWN\<close> hint for a compression with no forced format ends
  the program with \<open>UNKNOWN_FORMAT\<close>, nothing having been run: the message of the error
  is all that is printed, after the password prompt of the option \<open>-p\<close> if that was given.
\<close>

theorem recognize_operation:
  "recognize_source_type fs s = Inr st \<longrightarrow>
     (st = DIRECTORY \<or> st = REGULAR_FILE \<longrightarrow>
        recognize fs s t =
          Inr \<lparr>source_type = st, target_type_hint = recognize_by_extension t,
               operation = COMPRESS\<rparr> \<and>
        (\<not> show_help opts \<and> \<not> show_version opts \<and> \<not> interactive_mode opts \<and>
         length (source_paths opts) \<le> 1 \<and> source_path opts = s \<and> target_path opts = t \<and>
         \<not> equivalent fs s t \<and> force_format opts = [] \<and> recognize_by_extension t = UNKNOWN \<longrightarrow>
           main fs h u opts =
             Some ((if password_prompt opts then [Print ''enter_password'' []] else []) @
                   [PrintErr ''error_unknown_format''
                      [(''INFO'', ''Target format could not be determined. Please specify --format or use archive extension in target path.'')]],
                   5))) \<and>
     (st \<noteq> DIRECTORY \<and> st \<noteq> REGULAR_FILE \<longrightarrow>
        ((\<exists>key placeholders.
            recognize fs s t = Inl (HitpagException INVALID_TARGET key placeholders))
           \<longleftrightarrow> exists fs t \<and> \<not> is_directory fs t) \<and>
        (\<not> (exists fs t \<and> \<not> is_directory fs t) \<longrightarrow>
           recognize fs s t =
             Inr \<lparr>source_type = st, target_type_hint = recognize_by_extension t,
                  operation = DECOMPRESS\<rparr>))"
proof (intro impI conjI)
  assume st: "recognize_source_type fs s = Inr st"
  {
    assume c: "st = DIRECTORY \<or> st = REGULAR_FILE"
    show r: "recognize fs s t =
          Inr \<lparr>source_type = st, target_type_hint = recognize_by_extension t,
               operation = COMPRESS\<rparr>"
      using c by (simp add: recognize_unfold[OF st])
    assume o: "\<not> show_help opts \<and> \<not> show_version opts \<and> \<not> interactive_mode opts \<and>
         length (source_paths opts) \<le> 1 \<and> source_path opts = s \<and> target_path opts = t \<and>
         \<not> equivalent fs s t \<and> force_format opts = [] \<and> recognize_by_extension t = UNKNOWN"
    have "single_source fs h u (opts\<lparr>password := pw\<rparr>) = Some ([], format_undetermined)" for pw
      using o r by (simp add: single_source_def forced_format_def)
    then have "main_body fs h u opts =
        Some (if password_prompt opts then [Print ''enter_password'' []] else [],
              format_undetermined)"
      using o by (simp add: main_body_def get_password_interactively_def Let_def split: list.split)
    then show "main fs h u opts =
             Some ((if password_prompt opts then [Print ''enter_password'' []] else []) @
                   [PrintErr ''error_unknown_format''
                      [(''INFO'', ''Target format could not be determined. Please specify --format or use archive extension in target path.'')]],
                   5)"
      by (simp add: main_def format_undetermined_def throw_error_def message_key_def code_value_def)
  }
  {
    assume d: "st \<noteq> DIRECTORY \<and> st \<noteq> REGULAR_FILE"
    show "(\<exists>key placeholders.
            recognize fs s t = Inl (HitpagException INVALID_TARGET key placeholders))
           \<longleftrightarrow> exists fs t \<and> \<not> is_directory fs t"
      using d by (auto simp: recognize_unfold[OF st] throw_error_def)
    assume "\<not> (exists fs t \<and> \<not> is_directory fs t)"
    then show "recognize fs s t =
             Inr \<lparr>source_type = st, target_type_hint = recognize_by_extension t,
                  operation = DECOMPRESS\<rparr>"
      using d by (auto simp: recognize_unfold[OF st])
  }
qed


theorem recognize_operation_witness:
  "recognize (example_fs [(''docs'', DirectoryKind)] []) ''docs'' ''docs.tar.gz''
     = Inr \<lparr>source_type = DIRECTORY, target_type_hint = ARCHIVE_TAR_GZ, operation = COMPRESS\<rparr> \<and>
   main (example_fs [(''docs'', DirectoryKind)] []) (example_host []) \<lparr>decisions = [], entries = []\<rparr>
        (example_options [''docs''] ''backup'')
     = Some ([PrintErr ''error_unknown_format''
                [(''INFO'', ''Target format could not be determined. Please specify --format or use archive extension in target path.'')]],
             5) \<and>
   (\<exists>key placeholders.
      recognize (example_fs [(''a.rar'', RegularKind), (''out.txt'', RegularKind)] []) ''a.rar'' ''out.txt''
        = Inl (HitpagException INVALID_TARGET key placeholders)) \<and>
   recognize (example_fs [(''a.rar'', RegularKind), (''.'', DirectoryKind)] []) ''a.rar'' ''.''
     = Inr \<lparr>source_type = ARCHIVE_RAR, target_type_hint = UNKNOWN, operation = DECOMPRESS\<rparr>"
proof -
  let ?d = "example_fs [(''docs'', DirectoryKind)] []"
  let ?r = "example_fs [(''a.rar'', RegularKind), (''out.txt'', RegularKind)] []"
  let ?q = "example_fs [(''a.rar'', RegularKind), (''.'', DirectoryKind)] []"
  let ?o = "example_options [''docs''] ''backup''"
  have e: "recognize_by_extension ''docs.tar.gz'' = ARCHIVE_TAR_GZ"
    "recognize_by_extension ''backup'' = UNKNOWN" "recognize_by_extension ''a.rar'' = ARCHIVE_RAR"
    "recognize_by_extension ''out.txt'' = UNKNOWN" "recognize_by_extension ''.'' = UNKNOWN"
    by (simp_all add: recognize_by_extension_def path_simps is_split_zip_extension_def isdigit_def)
  have d: "recognize_source_type ?d ''docs'' = Inr DIRECTORY"
    by (simp add: recognize_source_type_def exists_def is_directory_def example_fs_def)
  have "kind ?r ''a.rar'' = RegularKind" "bytes_of ?r ''a.rar'' = None"
    by (simp_all add: example_fs_def)
  then have r: "recognize_source_type ?r ''a.rar'' = Inr ARCHIVE_RAR"
    by (simp add: recognize_source_type_def exists_def is_directory_def is_regular_file_def
          recognize_by_header_def e Let_def)
  have "kind ?q ''a.rar'' = RegularKind" "bytes_of ?q ''a.rar'' = None"
    by (simp_all add: example_fs_def)
  then have q: "recognize_source_type ?q ''a.rar'' = Inr ARCHIVE_RAR"
    by (simp add: recognize_source_type_def exists_def is_directory_def is_regular_file_def
          recognize_by_header_def e Let_def)
  have o: "\<not> show_help ?o \<and> \<not> show_version ?o \<and> \<not> interactive_mode ?o \<and>
         length (source_paths ?o) \<le> 1 \<and> source_path ?o = ''docs'' \<and> target_path ?o = ''backup'' \<and>
         \<not> equivalent ?d ''docs'' ''backup'' \<and> force_format ?o = [] \<and>
         recognize_by_extension ''backup'' = UNKNOWN"
    by (simp add: example_options_def e equivalent_def exists_def example_fs_def)
  have xr: "exists ?r ''out.txt'' \<and> \<not> is_directory ?r ''out.txt''"
    by (simp add: exists_def is_directory_def example_fs_def)
  have xq: "\<not> (exists ?q ''.'' \<and> \<not> is_directory ?q ''.'')"
    by (simp add: exists_def is_directory_def example_fs_def)
  note c1 = recognize_operation [where fs = ?d and s = "''docs''" and st = DIRECTORY and t = "''docs.tar.gz''", THEN mp, OF d,
      THEN conjunct1, THEN mp, OF disjI1, OF refl, THEN conjunct1]
  note c2 = recognize_operation [where fs = ?d and s = "''docs''" and st = DIRECTORY and t = "''backup''"
      and opts = ?o and h = "example_host []" and u = "\<lparr>decisions = [], entries = []\<rparr>", THEN mp, OF d,
      THEN conjunct1, THEN mp, OF disjI1, OF refl, THEN conjunct2, THEN mp, OF o]
  note c3 = recognize_operation [where fs = ?r and s = "''a.rar''" and st = ARCHIVE_RAR and t = "''out.txt''", THEN mp, OF r,
      THEN conjunct2, THEN mp, THEN conjunct1, THEN iffD2, OF _ xr]
  note c4 = recognize_operation [where fs = ?q and s = "''a.rar''" and st = ARCHIVE_RAR and t = "''.''", THEN mp, OF q,
      THEN conjunct2, THEN mp, THEN conjunct2, THEN mp, OF _ xq]
  have p: "\<not> password_prompt ?o" by (simp add: example_options_def)
  from c1 c2 c3 c4 show ?thesis by (simp add: e p)
qed

subsection \<open>The command for each format\<close>

lemma recognize_by_extension_cases:
  "recognize_by_extension p \<in>
     {ARCHIVE_TAR, ARCHIVE_TAR_GZ, ARCHIVE_TAR_BZ2, ARCHIVE_TAR_XZ, ARCHIVE_ZIP, ARCHIVE_RAR,
      ARCHIVE_7Z, ARCHIVE_LZ4, ARCHIVE_ZSTD, ARCHIVE_XAR, UNKNOWN}"
  by (simp add: recognize_by_extension_def Let_def)

lemma fails_with_throw_error:
  "fails_with c (throw_error c' ph) = ((if c' = SUCCESS then UNKNOWN_ERROR else c') = c)"
  by (simp add: throw_error_def)

lemma require_tool_cases:
  "(case require_tool h t n of Inl e \<Rightarrow> Inl e | Inr u \<Rightarrow> Inr (f u)) =
     (if tool_available h t then Inr (f ()) else throw_error TOOL_NOT_FOUND [(''TOOL_NAME'', n)])"
  by (simp add: require_tool_def throw_error_def)

lemma decompress_command_tar:
  "src_type \<in> {ARCHIVE_TAR, ARCHIVE_TAR_GZ, ARCHIVE_TAR_BZ2, ARCHIVE_TAR_XZ} \<Longrightarrow>
   decompress_command fs h s t src_type pw opts =
     ((if pw \<noteq> [] then [Print ''warning_tar_password'' []] else []) @ [Probe ''tar''],
      if tool_available h ''tar'' then
        Inr \<lparr>tool = ''tar'',
             args = [case src_type of ARCHIVE_TAR \<Rightarrow> ''-xf'' | ARCHIVE_TAR_GZ \<Rightarrow> ''-xzf''
                     | ARCHIVE_TAR_BZ2 \<Rightarrow> ''-xjf'' | _ \<Rightarrow> ''-xJf'',
                     absolute fs s, ''-C'', absolute fs t],
             working_dir = []\<rparr>
      else throw_error TOOL_NOT_FOUND [(''TOOL_NAME'', ''tar'')])"
  by (auto simp: decompress_command_def Let_def require_tool_def throw_error_def)

lemma decompress_command_zip:
  "decompress_command fs h s t ARCHIVE_ZIP pw opts =
     (if is_split_zip fs s then
        (if \<not> tool_available h ''7z'' then
           ([Probe ''7z''], Inl (HitpagException TOOL_NOT_FOUND ''error_split_zip_requires_7z'' []))
         else if (if is_split_zip_part s then find_split_zip_main fs s else s) = [] then
           ([Probe ''7z''],
            throw_error INVALID_SOURCE
              [(''PATH'', replace_extension s ''.zip''),
               (''REASON'', ''error_split_zip_main_not_found'')])
         else
           ([Probe ''7z''] @ (if verbose opts then [Print ''info_split_zip_detected'' []] else []),
            Inr \<lparr>tool = ''7z'',
                 args = build_7z_extract_args fs
                          (if is_split_zip_part s then find_split_zip_main fs s else s) t pw,
                 working_dir = []\<rparr>))
      else
        ([Probe ''unzip''],
         if tool_available h ''unzip'' then
           Inr \<lparr>tool = ''unzip'',
                args = (if pw \<noteq> [] then [''-P'', pw] else [])
                       @ [''-o'', absolute fs s, ''-d'', absolute fs t],
                working_dir = []\<rparr>
         else throw_error TOOL_NOT_FOUND [(''TOOL_NAME'', ''unzip'')]))"
  by (simp add: decompress_command_def Let_def require_tool_def throw_error_def)

lemma decompress_command_rar:
  "decompress_command fs h s t ARCHIVE_RAR pw opts =
     ([Probe ''unrar''],
      if tool_available h ''unrar'' then
        Inr \<lparr>tool = ''unrar'',
             args = [''x''] @ (if pw \<noteq> [] then [''-p'' @ pw] else [])
                    @ [''-o+'', absolute fs s, absolute fs t],
             working_dir = []\<rparr>
      else throw_error TOOL_NOT_FOUND [(''TOOL_NAME'', ''unrar'')])"
  by (simp add: decompress_command_def Let_def require_tool_def throw_error_def)

lemma decompress_command_7z:
  "decompress_command fs h s t ARCHIVE_7Z pw opts =
     ([Probe ''7z''],
      if tool_available h ''7z'' then
        Inr \<lparr>tool = ''7z'', args = build_7z_extract_args fs s t pw, working_dir = []\<rparr>
      else throw_error TOOL_NOT_FOUND [(''TOOL_NAME'', ''7z'')])"
  by (simp add: decompress_command_def Let_def require_tool_def throw_error_def)

lemma decompress_command_lz4:
  "decompress_command fs h s t ARCHIVE_LZ4 pw opts =
     ([Probe ''lz4''],
      if tool_available h ''lz4'' then
        Inr \<lparr>tool = ''lz4'', args = [''-d'', absolute fs s, absolute fs t], working_dir = []\<rparr>
      else throw_error TOOL_NOT_FOUND [(''TOOL_NAME'', ''lz4'')])"
  by (simp add: decompress_command_def Let_def require_tool_def throw_error_def)

lemma decompress_command_zstd:
  "decompress_command fs h s t ARCHIVE_ZSTD pw opts =
     ([Probe ''zstd''],
      if tool_available h ''zstd'' then
        Inr \<lparr>tool = ''zstd'', args = [''-d'', absolute fs s, ''-o'', absolute fs t],
             working_dir = []\<rparr>
      else throw_error TOOL_NOT_FOUND [(''TOOL_NAME'', ''zstd'')])"
  by (simp add: decompress_command_def Let_def require_tool_def throw_error_def)

lemma decompress_command_xar:
  "decompress_command fs h s t ARCHIVE_XAR pw opts =
     ([Probe ''xar''],
      if tool_available h ''xar'' then
        Inr \<lparr>tool = ''xar'', args = [''-xf'', absolute fs s, ''-C'', absolute fs t],
             working_dir = []\<rparr>
      else throw_error TOOL_NOT_FOUND [(''TOOL_NAME'', ''xar'')])"
  by (simp add: decompress_command_def Let_def require_tool_def throw_error_def)

lemmas decompress_command_simps = decompress_command_zip decompress_command_rar
  decompress_command_7z decompress_command_lz4 decompress_command_zstd decompress_command_xar

lemma compress_command_tar:
  "fmt \<in> {ARCHIVE_TAR, ARCHIVE_TAR_GZ, ARCHIVE_TAR_BZ2, ARCHIVE_TAR_XZ} \<Longrightarrow>
   compress_command fs h items wd t fmt pw opts =
     ((if pw \<noteq> [] then [Print ''warning_tar_password'' []] else []) @ [Probe ''tar''],
      if tool_available h ''tar'' then
        Inr \<lparr>tool = ''tar'',
             args = [case fmt of ARCHIVE_TAR \<Rightarrow> ''-cf'' | ARCHIVE_TAR_GZ \<Rightarrow> ''-czf''
                     | ARCHIVE_TAR_BZ2 \<Rightarrow> ''-cjf'' | _ \<Rightarrow> ''-cJf'',
                     absolute fs t] @ items,
             working_dir = wd\<rparr>
      else throw_error TOOL_NOT_FOUND [(''TOOL_NAME'', ''tar'')])"
  by (auto simp: compress_command_def Let_def require_tool_def throw_error_def)

lemma compress_command_zip:
  "compress_command fs h items wd t ARCHIVE_ZIP pw opts =
     ([Probe ''zip''],
      if tool_available h ''zip'' then
        Inr \<lparr>tool = ''zip'',
             args = (if pw \<noteq> [] then [''-P'', pw] else []) @ level_flag ''-'' opts
                    @ [''-r'', absolute fs t] @ items,
             working_dir = wd\<rparr>
      else throw_error TOOL_NOT_FOUND [(''TOOL_NAME'', ''zip'')])"
  by (simp add: compress_command_def Let_def require_tool_def throw_error_def)

lemma compress_command_7z:
  "compress_command fs h items wd t ARCHIVE_7Z pw opts =
     ([Probe ''7z''],
      if tool_available h ''7z'' then
        Inr \<lparr>tool = ''7z'',
             args = [''a''] @ (if pw \<noteq> [] then [''-p'' @ pw] else [])
                    @ level_flag ''-mx='' opts @ [absolute fs t] @ items,
             working_dir = wd\<rparr>
      else throw_error TOOL_NOT_FOUND [(''TOOL_NAME'', ''7z'')])"
  by (simp add: compress_command_def Let_def require_tool_def throw_error_def)

lemma compress_command_lz4:
  "compress_command fs h items wd t ARCHIVE_LZ4 pw opts =
     ([Probe ''lz4''],
      if \<not> tool_available h ''lz4'' then throw_error TOOL_NOT_FOUND [(''TOOL_NAME'', ''lz4'')]
      else if length items \<noteq> 1 then
        throw_error UNKNOWN_FORMAT
          [(''INFO'', ''Multiple sources are not supported for lz4 compression.'')]
      else Inr \<lparr>tool = ''lz4'', args = level_flag ''-'' opts @ [''-r'', hd items, absolute fs t],
                working_dir = wd\<rparr>)"
  by (simp add: compress_command_def Let_def require_tool_def throw_error_def)

lemma compress_command_zstd:
  "compress_command fs h items wd t ARCHIVE_ZSTD pw opts =
     ([Probe ''zstd''],
      if \<not> tool_available h ''zstd'' then throw_error TOOL_NOT_FOUND [(''TOOL_NAME'', ''zstd'')]
      else if length items \<noteq> 1 then
        throw_error UNKNOWN_FORMAT
          [(''INFO'', ''Multiple sources are not supported for zstd compression.'')]
      else Inr \<lparr>tool = ''zstd'',
                args = level_flag ''-'' opts @ [''-r'', hd items, ''-o'', absolute fs t],
                working_dir = wd\<rparr>)"
  by (simp add: compress_command_def Let_def require_tool_def throw_error_def)

lemma compress_command_xar:
  "compress_command fs h items wd t ARCHIVE_XAR pw opts =
     ([Probe ''xar''],
      if tool_available h ''xar'' then
        Inr \<lparr>tool = ''xar'', args = [''-cf'', absolute fs t] @ items, working_dir = wd\<rparr>
      else throw_error TOOL_NOT_FOUND [(''TOOL_NAME'', ''xar'')])"
  by (simp add: compress_command_def Let_def require_tool_def throw_error_def)

lemma compress_command_other:
  "fmt \<in> {ARCHIVE_RAR, REGULAR_FILE, DIRECTORY, UNKNOWN} \<Longrightarrow>
   compress_command fs h items wd t fmt pw opts =
     ([], throw_error UNKNOWN_FORMAT [(''INFO'', ''Unsupported target format for compression.'')])"
  by (auto simp: compress_command_def Let_def)

text \<open>
  Claim C7.  Whatever the path, when the type its extension gives is not \<open>UNKNOWN\<close>, it is
  one of the ten archive types, and the command for decompressing this type is never
  refused with \<open>UNKNOWN_FORMAT\<close>: with the tools at hand, and the source not a split ZIP
  archive, a command is built.  Each of the ten types is the type of a canonical extension,
  \<open>.rar\<close> and \<open>.xar\<close> among them.  (For compression every type but \<open>ARCHIVE_RAR\<close> has a
  command as well, given one item to archive.)
\<close>

theorem extension_has_command:
  "(recognize_by_extension p \<noteq> UNKNOWN \<longrightarrow>
      recognize_by_extension p \<in>
        {ARCHIVE_TAR, ARCHIVE_TAR_GZ, ARCHIVE_TAR_BZ2, ARCHIVE_TAR_XZ, ARCHIVE_ZIP, ARCHIVE_RAR,
         ARCHIVE_7Z, ARCHIVE_LZ4, ARCHIVE_ZSTD, ARCHIVE_XAR} \<and>
      \<not> fails_with UNKNOWN_FORMAT
          (snd (decompress_command fs h s t (recognize_by_extension p) pw opts)) \<and>
      ((\<forall>x. tool_available h x) \<and> \<not> is_split_zip fs s \<longrightarrow>
         (\<exists>cmd. snd (decompress_command fs h s t (recognize_by_extension p) pw opts) = Inr cmd)) \<and>
      ((\<forall>x. tool_available h x) \<and> length items = 1 \<and> recognize_by_extension p \<noteq> ARCHIVE_RAR
         \<longrightarrow> (\<exists>cmd. snd (compress_command fs h items wd t (recognize_by_extension p) pw opts)
                     = Inr cmd))) \<and>
   map recognize_by_extension
     [''a.tar'', ''a.tar.gz'', ''a.tar.bz2'', ''a.tar.xz'', ''a.zip'', ''a.rar'', ''a.7z'', ''a.lz4'',
      ''a.zst'', ''a.xar'']
     = [ARCHIVE_TAR, ARCHIVE_TAR_GZ, ARCHIVE_TAR_BZ2, ARCHIVE_TAR_XZ, ARCHIVE_ZIP, ARCHIVE_RAR,
        ARCHIVE_7Z, ARCHIVE_LZ4, ARCHIVE_ZSTD, ARCHIVE_XAR]"
proof (intro conjI impI)
  show "map recognize_by_extension
     [''a.tar'', ''a.tar.gz'', ''a.tar.bz2'', ''a.tar.xz'', ''a.zip'', ''a.rar'', ''a.7z'', ''a.lz4'',
      ''a.zst'', ''a.xar'']
     = [ARCHIVE_TAR, ARCHIVE_TAR_GZ, ARCHIVE_TAR_BZ2, ARCHIVE_TAR_XZ, ARCHIVE_ZIP, ARCHIVE_RAR,
        ARCHIVE_7Z, ARCHIVE_LZ4, ARCHIVE_ZSTD, ARCHIVE_XAR]"
    by (simp add: recognize_by_extension_def path_simps is_split_zip_extension_def isdigit_def)
next
  assume k: "recognize_by_extension p \<noteq> UNKNOWN"
  let ?f = "recognize_by_extension p"
  from k recognize_by_extension_cases[of p]
  show m: "?f \<in> {ARCHIVE_TAR, ARCHIVE_TAR_GZ, ARCHIVE_TAR_BZ2, ARCHIVE_TAR_XZ, ARCHIVE_ZIP,
         ARCHIVE_RAR, ARCHIVE_7Z, ARCHIVE_LZ4, ARCHIVE_ZSTD, ARCHIVE_XAR}"
    by auto
  then consider (tar) "?f \<in> {ARCHIVE_TAR, ARCHIVE_TAR_GZ, ARCHIVE_TAR_BZ2, ARCHIVE_TAR_XZ}"
    | (zip) "?f = ARCHIVE_ZIP" | (rar) "?f = ARCHIVE_RAR" | (sz) "?f = ARCHIVE_7Z"
    | (lz4) "?f = ARCHIVE_LZ4" | (zstd) "?f = ARCHIVE_ZSTD" | (xar) "?f = ARCHIVE_XAR"
    by auto
  note cases = this
  show "\<not> fails_with UNKNOWN_FORMAT (snd (decompress_command fs h s t ?f pw opts))"
  proof (cases rule: cases)
    case tar
    then show ?thesis by (simp add: decompress_command_tar fails_with_throw_error)
  qed (simp_all add: decompress_command_simps fails_with_throw_error)
  {
    assume a: "(\<forall>x. tool_available h x) \<and> \<not> is_split_zip fs s"
    show "\<exists>cmd. snd (decompress_command fs h s t ?f pw opts) = Inr cmd"
    proof (cases rule: cases)
      case tar
      then show ?thesis using a by (simp add: decompress_command_tar)
    qed (use a in \<open>simp_all add: decompress_command_simps\<close>)
  }
  {
    assume a: "(\<forall>x. tool_available h x) \<and> length items = 1 \<and> ?f \<noteq> ARCHIVE_RAR"
    show "\<exists>cmd. snd (compress_command fs h items wd t ?f pw opts) = Inr cmd"
    proof (cases rule: cases)
      case tar
      then show ?thesis using a by (simp add: compress_command_tar)
    qed (use a in \<open>simp_all add: compress_command_zip compress_command_7z compress_command_lz4
          compress_command_zstd compress_command_xar\<close>)
  }
qed

theorem extension_has_command_witness:
  "snd (decompress_command (example_fs [(''a.rar'', RegularKind)] []) (example_host [''unrar''])
          ''a.rar'' ''out'' (recognize_by_extension ''a.rar'') [] (example_options [''a.rar''] ''out''))
     = Inr \<lparr>tool = ''unrar'', args = [''x'', ''-o+'', ''/cwd/a.rar'', ''/cwd/out''], working_dir = []\<rparr> \<and>
   \<not> fails_with UNKNOWN_FORMAT
       (snd (decompress_command (example_fs [] []) (example_host []) ''b.tar.gz'' ''out''
               (recognize_by_extension ''b.tar.gz'') [] (example_options [''b.tar.gz''] ''out'')))"
proof -
  have e: "recognize_by_extension ''a.rar'' = ARCHIVE_RAR"
    "recognize_by_extension ''b.tar.gz'' = ARCHIVE_TAR_GZ"
    by (simp_all add: recognize_by_extension_def path_simps is_split_zip_extension_def isdigit_def)
  have k: "recognize_by_extension ''b.tar.gz'' \<noteq> UNKNOWN" by (simp add: e)
  note w = extension_has_command [where p = "''b.tar.gz''" and fs = "example_fs [] []"
      and h = "example_host []" and s = "''b.tar.gz''" and t = "''out''" and pw = "[]"
      and opts = "example_options [''b.tar.gz''] ''out''", THEN conjunct1, THEN mp, OF k,
      THEN conjunct2, THEN conjunct1]
  have "snd (decompress_command (example_fs [(''a.rar'', RegularKind)] []) (example_host [''unrar''])
          ''a.rar'' ''out'' (recognize_by_extension ''a.rar'') [] (example_options [''a.rar''] ''out''))
     = Inr \<lparr>tool = ''unrar'', args = [''x'', ''-o+'', ''/cwd/a.rar'', ''/cwd/out''], working_dir = []\<rparr>"
    by (simp add: e decompress_command_rar example_host_def example_fs_def)
  with w show ?thesis by simp
qed

subsection \<open>Passwords and the tar formats\<close>

lemma compress_split:
  "compress_layout fs sources = Some (Inr (base_dir, items)) \<Longrightarrow>
   compress fs h sources t fmt pw opts =
     (let threads = (if verbose opts \<and> thread_count opts > 1
                       then [Print ''threads_info'' [(''COUNT'', to_string (thread_count opts))]]
                     else []);
          c = compress_command fs h items (path_string base_dir) t fmt pw opts
      in case snd c of
           Inl e \<Rightarrow> Some (threads @ fst c, Inl e)
         | Inr cmd \<Rightarrow>
             Some (threads @ fst c @ fst (run_compress h cmd t fmt opts),
                   snd (run_compress h cmd t fmt opts)))"
  by (simp add: compress_def Let_def split: prod.splits sum.splits)

text \<open>
  Claim C8.  For a tar format and a password that is not empty, the command built for
  compression and the one built for decompression are the ones built without a password:
  in either case the only difference is the warning, which is printed first; the result,
  be it the command or the exception of a missing tool, is the same, and the arguments
  are the flag of the format and the paths.  The same holds of \<open>operation::decompress\<close> and
  of \<open>operation::compress\<close> as a whole, once the target directory and the layout are there.
\<close>

theorem tar_ignores_password:
  "fmt \<in> {ARCHIVE_TAR, ARCHIVE_TAR_GZ, ARCHIVE_TAR_BZ2, ARCHIVE_TAR_XZ} \<and> pw \<noteq> [] \<longrightarrow>
     compress_command fs h items wd t fmt pw opts =
       (Print ''warning_tar_password'' [] # fst (compress_command fs h items wd t fmt [] opts),
        snd (compress_command fs h items wd t fmt [] opts)) \<and>
     decompress_command fs h s t fmt pw opts =
       (Print ''warning_tar_password'' [] # fst (decompress_command fs h s t fmt [] opts),
        snd (decompress_command fs h s t fmt [] opts)) \<and>
     (tool_available h ''tar'' \<longrightarrow>
        snd (compress_command fs h items wd t fmt pw opts) =
          Inr \<lparr>tool = ''tar'',
               args = [case fmt of ARCHIVE_TAR \<Rightarrow> ''-cf'' | ARCHIVE_TAR_GZ \<Rightarrow> ''-czf''
                       | ARCHIVE_TAR_BZ2 \<Rightarrow> ''-cjf'' | _ \<Rightarrow> ''-cJf'',
                       absolute fs t] @ items,
               working_dir = wd\<rparr> \<and>
        snd (decompress_command fs h s t fmt pw opts) =
          Inr \<lparr>tool = ''tar'',
               args = [case fmt of ARCHIVE_TAR \<Rightarrow> ''-xf'' | ARCHIVE_TAR_GZ \<Rightarrow> ''-xzf''
                       | ARCHIVE_TAR_BZ2 \<Rightarrow> ''-xjf'' | _ \<Rightarrow> ''-xJf'',
                       absolute fs s, ''-C'', absolute fs t],
               working_dir = []\<rparr>) \<and>
     (\<not> (\<not> exists fs t \<and> create_directories_fails fs t) \<longrightarrow>
        decompress fs h s t fmt pw opts =
          (Print ''warning_tar_password'' [] # fst (decompress fs h s t fmt [] opts),
           snd (decompress fs h s t fmt [] opts))) \<and>
     (\<forall>base_dir its. compress_layout fs sources = Some (Inr (base_dir, its)) \<longrightarrow>
        (\<exists>evs evs' r. compress fs h sources t fmt pw opts = Some (evs, r) \<and>
            compress fs h sources t fmt [] opts = Some (evs', r) \<and>
            Print ''warning_tar_password'' [] \<in> set evs \<and>
            filter (\<lambda>e. e \<noteq> Print ''warning_tar_password'' []) evs = evs'))"
proof (intro impI conjI allI)
  assume a: "fmt \<in> {ARCHIVE_TAR, ARCHIVE_TAR_GZ, ARCHIVE_TAR_BZ2, ARCHIVE_TAR_XZ} \<and> pw \<noteq> []"
  then have f: "fmt \<in> {ARCHIVE_TAR, ARCHIVE_TAR_GZ, ARCHIVE_TAR_BZ2, ARCHIVE_TAR_XZ}"
    and p: "pw \<noteq> []" by auto
  show c: "compress_command fs h items wd t fmt pw opts =
       (Print ''warning_tar_password'' [] # fst (compress_command fs h items wd t fmt [] opts),
        snd (compress_command fs h items wd t fmt [] opts))" for items wd
    using p by (simp add: compress_command_tar[OF f])
  show d: "decompress_command fs h s t fmt pw opts =
       (Print ''warning_tar_password'' [] # fst (decompress_command fs h s t fmt [] opts),
        snd (decompress_command fs h s t fmt [] opts))"
    using p by (simp add: decompress_command_tar[OF f])
  {
    assume "tool_available h ''tar''"
    then show "snd (compress_command fs h items wd t fmt pw opts) =
          Inr \<lparr>tool = ''tar'',
               args = [case fmt of ARCHIVE_TAR \<Rightarrow> ''-cf'' | ARCHIVE_TAR_GZ \<Rightarrow> ''-czf''
                       | ARCHIVE_TAR_BZ2 \<Rightarrow> ''-cjf'' | _ \<Rightarrow> ''-cJf'',
                       absolute fs t] @ items,
               working_dir = wd\<rparr>"
      and "snd (decompress_command fs h s t fmt pw opts) =
          Inr \<lparr>tool = ''tar'',
               args = [case fmt of ARCHIVE_TAR \<Rightarrow> ''-xf'' | ARCHIVE_TAR_GZ \<Rightarrow> ''-xzf''
                       | ARCHIVE_TAR_BZ2 \<Rightarrow> ''-xjf'' | _ \<Rightarrow> ''-xJf'',
                       absolute fs s, ''-C'', absolute fs t],
               working_dir = []\<rparr>"
      by (simp_all add: compress_command_tar[OF f] decompress_command_tar[OF f])
  }
  {
    assume "\<not> (\<not> exists fs t \<and> create_directories_fails fs t)"
    then show "decompress fs h s t fmt pw opts =
          (Print ''warning_tar_password'' [] # fst (decompress fs h s t fmt [] opts),
           snd (decompress fs h s t fmt [] opts))"
      unfolding decompress_def d
      by (auto simp: Let_def split: prod.splits sum.splits)
  }
  {
    fix base_dir its
    assume l: "compress_layout fs sources = Some (Inr (base_dir, its))"
    have w: "Print ''warning_tar_password'' [] \<notin> set (fst (run_compress h cmd t fmt opts))" for cmd
      by (auto simp: run_compress_def Let_def verify_archive_def split: prod.splits if_splits)
    let ?w = "Print ''warning_tar_password'' []"
    let ?th = "if verbose opts \<and> thread_count opts > 1
                 then [Print ''threads_info'' [(''COUNT'', to_string (thread_count opts))]] else []"
    let ?cmd = "\<lparr>tool = ''tar'',
               args = [case fmt of ARCHIVE_TAR \<Rightarrow> ''-cf'' | ARCHIVE_TAR_GZ \<Rightarrow> ''-czf''
                       | ARCHIVE_TAR_BZ2 \<Rightarrow> ''-cjf'' | _ \<Rightarrow> ''-cJf'',
                       absolute fs t] @ its,
               working_dir = path_string base_dir\<rparr>"
    have nf: "x \<notin> set xs \<Longrightarrow> filter (\<lambda>e. e \<noteq> x) xs = xs" for x :: event and xs
      by (induction xs) auto
    have th: "filter (\<lambda>e. e \<noteq> ?w) ?th = ?th" by simp
    show "\<exists>evs evs' r. compress fs h sources t fmt pw opts = Some (evs, r) \<and>
            compress fs h sources t fmt [] opts = Some (evs', r) \<and>
            Print ''warning_tar_password'' [] \<in> set evs \<and>
            filter (\<lambda>e. e \<noteq> Print ''warning_tar_password'' []) evs = evs'"
    proof (cases "tool_available h ''tar''")
      case False
      have 1: "compress fs h sources t fmt pw opts =
                 Some (?th @ [?w, Probe ''tar''], throw_error TOOL_NOT_FOUND [(''TOOL_NAME'', ''tar'')])"
        using False p by (simp add: compress_split[OF l] compress_command_tar[OF f] throw_error_def)
      have 2: "compress fs h sources t fmt [] opts =
                 Some (?th @ [Probe ''tar''], throw_error TOOL_NOT_FOUND [(''TOOL_NAME'', ''tar'')])"
        using False by (simp add: compress_split[OF l] compress_command_tar[OF f] throw_error_def)
      have 3: "filter (\<lambda>e. e \<noteq> ?w) (?th @ [?w, Probe ''tar'']) = ?th @ [Probe ''tar'']"
        by simp
      show ?thesis unfolding 1 2 using 3 by (intro exI conjI) (rule refl, rule refl, simp, simp)
    next
      case True
      let ?run = "fst (run_compress h ?cmd t fmt opts)"
      have 1: "compress fs h sources t fmt pw opts =
                 Some (?th @ [?w, Probe ''tar''] @ ?run, snd (run_compress h ?cmd t fmt opts))"
        using True p by (simp add: compress_split[OF l] compress_command_tar[OF f])
      have 2: "compress fs h sources t fmt [] opts =
                 Some (?th @ [Probe ''tar''] @ ?run, snd (run_compress h ?cmd t fmt opts))"
        using True by (simp add: compress_split[OF l] compress_command_tar[OF f])
      have 3: "filter (\<lambda>e. e \<noteq> ?w) (?th @ [?w, Probe ''tar''] @ ?run) = ?th @ [Probe ''tar''] @ ?run"
        using nf[OF w[of ?cmd]] by simp
      show ?thesis unfolding 1 2 using 3 by (intro exI conjI) (rule refl, rule refl, simp, simp)
    qed
  }
qed

theorem tar_ignores_password_witness:
  "compress_command (example_fs [(''docs'', DirectoryKind)] []) (example_host [''tar'']) [''docs'']
       ''/cwd'' ''docs.tar.gz'' ARCHIVE_TAR_GZ ''secret'' (example_options [''docs''] ''docs.tar.gz'')
     = ([Print ''warning_tar_password'' [], Probe ''tar''],
        Inr \<lparr>tool = ''tar'', args = [''-czf'', ''/cwd/docs.tar.gz'', ''docs''],
             working_dir = ''/cwd''\<rparr>) \<and>
   decompress_command (example_fs [(''docs.tar.gz'', RegularKind)] []) (example_host [''tar''])
       ''docs.tar.gz'' ''out'' ARCHIVE_TAR_GZ ''secret'' (example_options [''docs.tar.gz''] ''out'')
     = ([Print ''warning_tar_password'' [], Probe ''tar''],
        Inr \<lparr>tool = ''tar'', args = [''-xzf'', ''/cwd/docs.tar.gz'', ''-C'', ''/cwd/out''],
             working_dir = []\<rparr>)"
proof -
  have a: "ARCHIVE_TAR_GZ \<in> {ARCHIVE_TAR, ARCHIVE_TAR_GZ, ARCHIVE_TAR_BZ2, ARCHIVE_TAR_XZ} \<and>
           ''secret'' \<noteq> []" by simp
  have t: "tool_available (example_host [''tar'']) ''tar''" by (simp add: example_host_def)
  note c = tar_ignores_password [where fmt = ARCHIVE_TAR_GZ and pw = "''secret''"
      and fs = "example_fs [(''docs'', DirectoryKind)] []" and h = "example_host [''tar'']"
      and items = "[''docs'']" and wd = "''/cwd''" and t = "''docs.tar.gz''"
      and opts = "example_options [''docs''] ''docs.tar.gz''", THEN mp, OF a]
  note d = tar_ignores_password [where fmt = ARCHIVE_TAR_GZ and pw = "''secret''"
      and fs = "example_fs [(''docs.tar.gz'', RegularKind)] []" and h = "example_host [''tar'']"
      and s = "''docs.tar.gz''" and t = "''out''"
      and opts = "example_options [''docs.tar.gz''] ''out''", THEN mp, OF a]
  note c1 = c[THEN conjunct1] and c3 = c[THEN conjunct2, THEN conjunct2, THEN conjunct1, THEN mp, OF t, THEN conjunct1]
  note d2 = d[THEN conjunct2, THEN conjunct1] and d3 = d[THEN conjunct2, THEN conjunct2, THEN conjunct1, THEN mp, OF t, THEN conjunct2]
  have p: "fst (compress_command (example_fs [(''docs'', DirectoryKind)] []) (example_host [''tar''])
              [''docs''] ''/cwd'' ''docs.tar.gz'' ARCHIVE_TAR_GZ [] (example_options [''docs''] ''docs.tar.gz''))
            = [Probe ''tar'']"
    "fst (decompress_command (example_fs [(''docs.tar.gz'', RegularKind)] []) (example_host [''tar''])
       ''docs.tar.gz'' ''out'' ARCHIVE_TAR_GZ [] (example_options [''docs.tar.gz''] ''out''))
            = [Probe ''tar'']"
    by (simp_all add: compress_command_tar decompress_command_tar)
  have ab: "absolute (example_fs [(''docs'', DirectoryKind)] []) ''docs.tar.gz'' = ''/cwd/docs.tar.gz''"
    "absolute (example_fs [(''docs.tar.gz'', RegularKind)] []) ''docs.tar.gz'' = ''/cwd/docs.tar.gz''"
    "absolute (example_fs [(''docs.tar.gz'', RegularKind)] []) ''out'' = ''/cwd/out''"
    by (simp_all add: example_fs_def)
  from c1 c3 have 1: "compress_command (example_fs [(''docs'', DirectoryKind)] []) (example_host [''tar'']) [''docs'']
       ''/cwd'' ''docs.tar.gz'' ARCHIVE_TAR_GZ ''secret'' (example_options [''docs''] ''docs.tar.gz'')
     = ([Print ''warning_tar_password'' [], Probe ''tar''],
        Inr \<lparr>tool = ''tar'', args = [''-czf'', ''/cwd/docs.tar.gz'', ''docs''],
             working_dir = ''/cwd''\<rparr>)"
    by (simp add: p ab prod_eq_iff)
  from d2 d3 have 2: "decompress_command (example_fs [(''docs.tar.gz'', RegularKind)] []) (example_host [''tar''])
       ''docs.tar.gz'' ''out'' ARCHIVE_TAR_GZ ''secret'' (example_options [''docs.tar.gz''] ''out'')
     = ([Print ''warning_tar_password'' [], Probe ''tar''],
        Inr \<lparr>tool = ''tar'', args = [''-xzf'', ''/cwd/docs.tar.gz'', ''-C'', ''/cwd/out''],
             working_dir = []\<rparr>)"
    by (simp add: p ab prod_eq_iff)
  from 1 2 show ?thesis by simp
qed

subsection \<open>One item for lz4 and zstd\<close>

text \<open>
  Claim C10, as amended.  For compression to \<open>ARCHIVE_LZ4\<close> or \<open>ARCHIVE_ZSTD\<close> with the
  layout planned: when the tool of the format is not found, \<open>compress\<close> fails with
  \<open>TOOL_NOT_FOUND\<close>, however many items there are; when it is found and the layout has
  other than one item, \<open>compress\<close> fails with \<open>UNKNOWN_FORMAT\<close>, saying that multiple
  sources are not supported, and no tool has been run; when it is found and there is
  exactly one item, the command is built.
\<close>

theorem lz4_zstd_one_item:
  "fmt \<in> {ARCHIVE_LZ4, ARCHIVE_ZSTD} \<and> compress_layout fs sources = Some (Inr (base_dir, items)) \<and>
   name = (if fmt = ARCHIVE_LZ4 then ''lz4'' else ''zstd'') \<longrightarrow>
     (\<not> tool_available h name \<longrightarrow>
        (\<exists>evs. compress fs h sources t fmt pw opts =
                 Some (evs, throw_error TOOL_NOT_FOUND [(''TOOL_NAME'', name)]) \<and>
               \<not> list_ex is_run evs)) \<and>
     (tool_available h name \<and> length items \<noteq> 1 \<longrightarrow>
        (\<exists>evs. compress fs h sources t fmt pw opts =
                 Some (evs, throw_error UNKNOWN_FORMAT
                              [(''INFO'', ''Multiple sources are not supported for '' @ name
                                         @ '' compression.'')]) \<and>
               \<not> list_ex is_run evs)) \<and>
     (tool_available h name \<and> length items = 1 \<longrightarrow>
        snd (compress_command fs h items (path_string base_dir) t fmt pw opts) =
          Inr \<lparr>tool = name,
               args = level_flag ''-'' opts @ [''-r'', hd items]
                      @ (if fmt = ARCHIVE_LZ4 then [] else [''-o'']) @ [absolute fs t],
               working_dir = path_string base_dir\<rparr>)"
proof (intro impI conjI)
  assume a: "fmt \<in> {ARCHIVE_LZ4, ARCHIVE_ZSTD} \<and>
      compress_layout fs sources = Some (Inr (base_dir, items)) \<and>
      name = (if fmt = ARCHIVE_LZ4 then ''lz4'' else ''zstd'')"
  then have l: "compress_layout fs sources = Some (Inr (base_dir, items))" by simp
  from a consider (lz4) "fmt = ARCHIVE_LZ4" "name = ''lz4''" | (zstd) "fmt = ARCHIVE_ZSTD" "name = ''zstd''"
    by auto
  note cases = this
  {
    assume "\<not> tool_available h name"
    then show "\<exists>evs. compress fs h sources t fmt pw opts =
                 Some (evs, throw_error TOOL_NOT_FOUND [(''TOOL_NAME'', name)]) \<and>
               \<not> list_ex is_run evs"
      by (cases rule: cases)
         (simp_all add: compress_split[OF l] compress_command_lz4 compress_command_zstd
            throw_error_def)
  }
  {
    assume "tool_available h name \<and> length items \<noteq> 1"
    then show "\<exists>evs. compress fs h sources t fmt pw opts =
                 Some (evs, throw_error UNKNOWN_FORMAT
                              [(''INFO'', ''Multiple sources are not supported for '' @ name
                                         @ '' compression.'')]) \<and>
               \<not> list_ex is_run evs"
      by (cases rule: cases)
         (simp_all add: compress_split[OF l] compress_command_lz4 compress_command_zstd
            throw_error_def)
  }
  {
    assume "tool_available h name \<and> length items = 1"
    then show "snd (compress_command fs h items (path_string base_dir) t fmt pw opts) =
          Inr \<lparr>tool = name,
               args = level_flag ''-'' opts @ [''-r'', hd items]
                      @ (if fmt = ARCHIVE_LZ4 then [] else [''-o'']) @ [absolute fs t],
               working_dir = path_string base_dir\<rparr>"
      by (cases rule: cases) (simp_all add: compress_command_lz4 compress_command_zstd)
  }
qed

lemmas layout_simps = compress_layout_def exists_def is_directory_def example_fs_def
  determine_common_base_def walk_up.simps is_descendant_or_same_def lexically_relative_def
  archive_item_def path_string_def Let_def

lemma layout_two_files:
  "compress_layout (example_fs [(''/x/a'', RegularKind), (''/x/b'', RegularKind)] [])
     [\<lparr>path = ''/x/a'', include_contents = False\<rparr>, \<lparr>path = ''/x/b'', include_contents = False\<rparr>]
   = Some (Inr ([''x''], [''a'', ''b'']))"
  by (simp add: layout_simps)

theorem lz4_zstd_one_item_witness:
  "(\<exists>evs. compress (example_fs [(''/x/a'', RegularKind), (''/x/b'', RegularKind)] [])
             (example_host [''lz4''])
             [\<lparr>path = ''/x/a'', include_contents = False\<rparr>,
              \<lparr>path = ''/x/b'', include_contents = False\<rparr>]
             ''out.lz4'' ARCHIVE_LZ4 [] (example_options [''/x/a'', ''/x/b''] ''out.lz4'')
           = Some (evs, throw_error UNKNOWN_FORMAT
                          [(''INFO'', ''Multiple sources are not supported for lz4 compression.'')]) \<and>
          \<not> list_ex is_run evs)"
proof -
  have a: "ARCHIVE_LZ4 \<in> {ARCHIVE_LZ4, ARCHIVE_ZSTD} \<and>
     compress_layout (example_fs [(''/x/a'', RegularKind), (''/x/b'', RegularKind)] [])
       [\<lparr>path = ''/x/a'', include_contents = False\<rparr>, \<lparr>path = ''/x/b'', include_contents = False\<rparr>]
       = Some (Inr ([''x''], [''a'', ''b''])) \<and>
     ''lz4'' = (if ARCHIVE_LZ4 = ARCHIVE_LZ4 then ''lz4'' else ''zstd'')"
    by (simp add: layout_two_files)
  have t: "tool_available (example_host [''lz4'']) ''lz4'' \<and> length [''a'', ''b''] \<noteq> 1"
    by (simp add: example_host_def)
  from lz4_zstd_one_item [where h = "example_host [''lz4'']" and t = "''out.lz4''" and pw = "[]"
      and opts = "example_options [''/x/a'', ''/x/b''] ''out.lz4''", THEN mp, OF a,
      THEN conjunct2, THEN conjunct1, THEN mp, OF t]
  show ?thesis by simp
qed

theorem lz4_missing_tool_counterexample:
  "compress (example_fs [(''/x/a'', RegularKind), (''/x/b'', RegularKind)] []) (example_host [])
     [\<lparr>path = ''/x/a'', include_contents = False\<rparr>, \<lparr>path = ''/x/b'', include_contents = False\<rparr>]
     ''out.lz4'' ARCHIVE_LZ4 [] (example_options [''/x/a'', ''/x/b''] ''out.lz4'')
   = Some ([Probe ''lz4''],
           Inl (HitpagException TOOL_NOT_FOUND ''error_tool_not_found'' [(''TOOL_NAME'', ''lz4'')]))"
  by (simp add: compress_split[OF layout_two_files] compress_command_lz4 example_host_def
        example_options_def throw_error_def message_key_def)

subsection \<open>The layout of an archive\<close>















subsection \<open>The same path for source and target\<close>

text \<open>
  On the command line, when the source and the target resolve to the same entry of the
  file system, or with several sources when one of them and the target do, \<open>main\<close> fails with
  \<open>SAME_PATH\<close>: the exception is thrown before anything else is done, so only the password
  prompt of the option \<open>-p\<close>, if that was given, and the message of the error are printed,
  no tool is probed or run, and the exit status is 4.
\<close>

lemma command_line_same_path:
  "\<not> show_help opts \<and> \<not> show_version opts \<and> \<not> interactive_mode opts \<and>
   (if length (source_paths opts) > 1
      then \<exists>src\<in>set (source_paths opts). equivalent fs src (target_path opts)
    else equivalent fs (source_path opts) (target_path opts)) \<longrightarrow>
     main fs h u opts =
       Some ((if password_prompt opts then [Print ''enter_password'' []] else []) @
             [PrintErr ''error_same_path'' []], 4)"
proof
  assume a: "\<not> show_help opts \<and> \<not> show_version opts \<and> \<not> interactive_mode opts \<and>
   (if length (source_paths opts) > 1
      then \<exists>src\<in>set (source_paths opts). equivalent fs src (target_path opts)
    else equivalent fs (source_path opts) (target_path opts))"
  have b: "(if length (source_paths opts) > 1 then multi_source fs h u (opts\<lparr>password := pw\<rparr>)
            else single_source fs h u (opts\<lparr>password := pw\<rparr>))
           = Some ([], throw_error SAME_PATH [])" for pw
  proof (cases "length (source_paths opts) > 1")
    case True
    with a have "\<exists>src\<in>set (source_paths opts). equivalent fs src (target_path opts)" by simp
    then have "exists fs (target_path opts) \<and>
      list_ex (\<lambda>src. exists fs src \<and> equivalent fs src (target_path opts)) (source_paths opts)"
      by (auto simp: list_ex_iff equivalent_def)
    with True show ?thesis by (simp add: multi_source_def)
  next
    case False
    with a have "equivalent fs (source_path opts) (target_path opts)" by simp
    with False show ?thesis by (simp add: single_source_def equivalent_def)
  qed
  have "main_body fs h u opts =
      Some (if password_prompt opts then [Print ''enter_password'' []] else [],
            throw_error SAME_PATH [])"
  proof (cases "length (source_paths opts) > 1")
    case True
    with a b show ?thesis
      by (simp add: main_body_def get_password_interactively_def Let_def split: list.split)
  next
    case False
    with a b show ?thesis
      by (simp add: main_body_def get_password_interactively_def Let_def split: list.split)
  qed
  then show "main fs h u opts =
       Some ((if password_prompt opts then [Print ''enter_password'' []] else []) @
             [PrintErr ''error_same_path'' []], 4)"
    by (simp add: main_def throw_error_def message_key_def code_value_def)
qed

lemma command_line_same_path_example:
  "main (example_fs [(''a.zip'', RegularKind)] []) (example_host [''unzip''])
        \<lparr>decisions = [], entries = []\<rparr> (example_options [''a.zip''] ''a.zip'')
     = Some ([PrintErr ''error_same_path'' []], 4) \<and>
   main (example_fs [(''a.zip'', RegularKind), (''b.txt'', RegularKind)] []) (example_host [''zip''])
        \<lparr>decisions = [], entries = []\<rparr> (example_options [''b.txt'', ''a.zip''] ''a.zip'')
     = Some ([PrintErr ''error_same_path'' []], 4)"
proof -
  let ?f = "example_fs [(''a.zip'', RegularKind)] []"
  let ?g = "example_fs [(''a.zip'', RegularKind), (''b.txt'', RegularKind)] []"
  let ?o = "example_options [''a.zip''] ''a.zip''"
  let ?p = "example_options [''b.txt'', ''a.zip''] ''a.zip''"
  have 1: "\<not> show_help ?o \<and> \<not> show_version ?o \<and> \<not> interactive_mode ?o \<and>
   (if length (source_paths ?o) > 1
      then \<exists>src\<in>set (source_paths ?o). equivalent ?f src (target_path ?o)
    else equivalent ?f (source_path ?o) (target_path ?o))"
    by (simp add: example_options_def equivalent_def exists_def example_fs_def)
  have 2: "\<not> show_help ?p \<and> \<not> show_version ?p \<and> \<not> interactive_mode ?p \<and>
   (if length (source_paths ?p) > 1
      then \<exists>src\<in>set (source_paths ?p). equivalent ?g src (target_path ?p)
    else equivalent ?g (source_path ?p) (target_path ?p))"
    by (simp add: example_options_def equivalent_def exists_def example_fs_def)
  have 3: "\<not> password_prompt ?o" "\<not> password_prompt ?p"
    by (simp_all add: example_options_def)
  from command_line_same_path [of ?o ?f, THEN mp, OF 1]
    command_line_same_path [of ?p ?g, THEN mp, OF 2]
  show ?thesis by (simp add: 3)
qed

text \<open>
  Claim C9.  The interactive dialogue asks for the target and never compares it with the
  source.  Take the command line \<open>-i a.zip a.zip\<close>, where \<open>a.zip\<close> is a regular file, and a
  user who keeps the operation detected, has no password, enters \<open>a.zip\<close> as the target
  directory, has the existing target overwritten and keeps the source.  Source and target
  are the same entry, yet no \<open>SAME_PATH\<close> is thrown: the source is removed as the existing
  target, \<open>unzip\<close> is run on it, and the program ends with \<open>OPERATION_FAILED\<close>, exit status 7,
  where the command line ends with \<open>SAME_PATH\<close>, exit status 4, before any tool is run.
\<close>

theorem interactive_same_path:
  "equivalent (example_fs [(''a.zip'', RegularKind)] []) ''a.zip'' ''a.zip'' \<and>
   main (example_fs [(''a.zip'', RegularKind)] [])
        ((example_host [''unzip''])
           \<lparr>exit_status := (\<lambda>t a w. 9), typed_lines := [''n'', ''n'', ''a.zip'', ''n'']\<rparr>)
        \<lparr>decisions = [Overwrite], entries = []\<rparr>
        ((example_options [''a.zip''] ''a.zip'')\<lparr>interactive_mode := True\<rparr>)
     = Some ([Print ''interactive_mode'' [],
              Print ''Source: '' [(''SOURCE_PATH'', ''a.zip''), (''TYPE'', ''ZIP Archive'')],
              Print ''Detected operation: '' [(''OPERATION'', ''Decompress'')],
              Print ''ask_has_password'' [],
              Print ''Please enter target directory: '' [],
              Print ''target_exists_header''
                [(''TARGET_PATH'', ''a.zip''), (''OBJECT_TYPE'', ''target_exists_object_file'')],
              Print ''ask_delete_source'' [(''SOURCE_PATH'', ''a.zip'')],
              Probe ''unzip'',
              Print ''decompressing'' [],
              Run ''unzip'' [''-o'', ''/cwd/a.zip'', ''-d'', ''/cwd/a.zip''] [],
              PrintErr ''error_operation_failed'' [(''COMMAND'', ''unzip''), (''EXIT_CODE'', ''9'')]],
             7) \<and>
   map_sum id (\<lambda>(proceed, t, fs'). (proceed, t, kind fs' ''a.zip''))
     (snd (resolve_existing_target (example_fs [(''a.zip'', RegularKind)] []) ''a.zip''
             \<lparr>decisions = [Overwrite], entries = []\<rparr>))
     = Inr (True, ''a.zip'', NotFound)"
proof -
  let ?f = "example_fs [(''a.zip'', RegularKind)] []"
  let ?f' = "?f\<lparr>kind := (kind ?f)(''a.zip'' := NotFound)\<rparr>"
  let ?h = "(example_host [''unzip''])
           \<lparr>exit_status := (\<lambda>t a w. 9), typed_lines := [''n'', ''n'', ''a.zip'', ''n'']\<rparr>"
  let ?u = "\<lparr>decisions = [Overwrite], entries = []\<rparr>"
  let ?o = "(example_options [''a.zip''] ''a.zip'')\<lparr>interactive_mode := True\<rparr>"
  let ?o' = "?o\<lparr>password := []\<rparr>"
  have o: "\<not> show_help ?o" "\<not> show_version ?o" "\<not> password_prompt ?o" "password ?o = []"
    "interactive_mode ?o'" "source_path ?o' = ''a.zip''" "password ?o' = []"
    by (simp_all add: example_options_def)
  have h: "typed_lines ?h = [''n'', ''n'', ''a.zip'', ''n'']" "typed_passwords ?h = []"
    "tool_available (example_host [''unzip'']) ''unzip''" "exit_status ?h = (\<lambda>t a w. 9)"
    by (simp_all add: example_host_def)
  have k: "kind ?f ''a.zip'' = RegularKind" "bytes_of ?f ''a.zip'' = None"
    "\<not> remove_fails ?f ''a.zip''" "kind ?f' ''a.zip'' = NotFound" "kind ?f ''a.z01'' = NotFound"
    "\<not> create_directories_fails ?f ''a.zip''" "absolute ?f ''a.zip'' = ''/cwd/a.zip''"
    by (simp_all add: example_fs_def)
  have e: "recognize_by_extension ''a.zip'' = ARCHIVE_ZIP"
    by (simp add: recognize_by_extension_def path_simps is_split_zip_extension_def isdigit_def)
  have st: "recognize_source_type ?f ''a.zip'' = Inr ARCHIVE_ZIP"
    by (simp add: recognize_source_type_def exists_def is_directory_def is_regular_file_def
          recognize_by_header_def e k Let_def)
  have low: "tolower CHR ''n'' = CHR ''n''" by (simp add: tolower_def)
  have g: "get_input (''a.zip'' # rest) = Inr (''a.zip'', rest)"
    "get_input (''n'' # rest) = Inr (''n'', rest)" for rest
    by (simp_all add: get_input_def is_space_def)
  have "confirmation_loop (''n'' # rest) = ([], Inr (False, rest))" for rest
    by (simp add: is_space_def low)
  then have c: "get_confirmation key placeholders (''n'' # rest)
      = ([Print key placeholders], Inr (False, rest))" for key placeholders rest
    by (simp add: get_confirmation_def emit_def del: confirmation_loop.simps)
  have s1: "ask_source ?f ?o' [''n'', ''n'', ''a.zip'', ''n'']
     = ([Print ''Source: '' [(''SOURCE_PATH'', ''a.zip''), (''TYPE'', ''ZIP Archive'')]],
        Inr (''a.zip'', ARCHIVE_ZIP, [''n'', ''n'', ''a.zip'', ''n'']))"
    by (simp add: ask_source_def o st and_then_def get_file_type_string_def)
  have s2: "ask_operation ARCHIVE_ZIP [''n'', ''n'', ''a.zip'', ''n'']
     = ([Print ''Detected operation: '' [(''OPERATION'', ''Decompress'')]],
        Inr (DECOMPRESS, [''n'', ''a.zip'', ''n'']))"
    by (simp add: ask_operation_def and_then_def g low Let_def)
  have s3: "ask_decompress ?o' [''n'', ''a.zip'', ''n''] []
     = ([Print ''ask_has_password'' [], Print ''Please enter target directory: '' []],
        Inr (''a.zip'', [], [''n''], []))"
    by (simp add: ask_decompress_def o and_then_def c g)
  have q: "ask ?f ?o' [''n'', ''n'', ''a.zip'', ''n''] []
      = ([Print ''interactive_mode'' [],
          Print ''Source: '' [(''SOURCE_PATH'', ''a.zip''), (''TYPE'', ''ZIP Archive'')],
          Print ''Detected operation: '' [(''OPERATION'', ''Decompress'')],
          Print ''ask_has_password'' [],
          Print ''Please enter target directory: '' []],
         Inr (''a.zip'', ARCHIVE_ZIP, DECOMPRESS, UNKNOWN, ''a.zip'', [], [''n'']))"
    by (simp add: ask_def s1 and_then_def emit_def s2 s3)
  have r: "resolve_existing_target ?f ''a.zip'' ?u
      = ([Print ''target_exists_header''
            [(''TARGET_PATH'', ''a.zip''), (''OBJECT_TYPE'', ''target_exists_object_file'')]],
         Inr (True, ''a.zip'', ?f'))"
    by (simp add: resolve_existing_target_def exists_def is_directory_def k target_exists_header_def)
  have nsplit: "\<not> is_split_zip ?f' ''a.zip''"
    unfolding is_split_zip_unfold
    by (simp add: is_split_zip_extension_def path_simps isdigit_def exists_def k(5))
  have n: "int_to_string 9 = ''9''"
    by (simp add: int_to_string_def to_string.simps digit_char_def)
  have dc: "decompress_command ?f' ?h ''a.zip'' ''a.zip'' ARCHIVE_ZIP [] opts
      = ([Probe ''unzip''],
         Inr \<lparr>tool = ''unzip'', args = [''-o'', ''/cwd/a.zip'', ''-d'', ''/cwd/a.zip''],
              working_dir = []\<rparr>)" for opts
    by (simp add: decompress_command_def nsplit require_tool_def h(3) k(7) Let_def)
  have d: "decompress ?f' ?h ''a.zip'' ''a.zip'' ARCHIVE_ZIP [] opts
      = ([Probe ''unzip'', Print ''decompressing'' [],
          Run ''unzip'' [''-o'', ''/cwd/a.zip'', ''-d'', ''/cwd/a.zip''] []],
         Inl (HitpagException OPERATION_FAILED ''error_operation_failed''
                [(''COMMAND'', ''unzip''), (''EXIT_CODE'', ''9'')]))" for opts
    by (simp add: decompress_def dc h(4) k(4,6) exists_def Let_def throw_error_def message_key_def n)
  have "run ?f ?h ?u [''n'', ''n'', ''a.zip'', ''n''] [] ?o'
      = Some ([Print ''interactive_mode'' [],
              Print ''Source: '' [(''SOURCE_PATH'', ''a.zip''), (''TYPE'', ''ZIP Archive'')],
              Print ''Detected operation: '' [(''OPERATION'', ''Decompress'')],
              Print ''ask_has_password'' [],
              Print ''Please enter target directory: '' [],
              Print ''target_exists_header''
                [(''TARGET_PATH'', ''a.zip''), (''OBJECT_TYPE'', ''target_exists_object_file'')],
              Print ''ask_delete_source'' [(''SOURCE_PATH'', ''a.zip'')],
              Probe ''unzip'',
              Print ''decompressing'' [],
              Run ''unzip'' [''-o'', ''/cwd/a.zip'', ''-d'', ''/cwd/a.zip''] []],
             Inl (HitpagException OPERATION_FAILED ''error_operation_failed''
                [(''COMMAND'', ''unzip''), (''EXIT_CODE'', ''9'')]))"
    by (simp add: run_def q r c d Let_def)
  then have m: "main ?f ?h ?u ?o = Some ([Print ''interactive_mode'' [],
              Print ''Source: '' [(''SOURCE_PATH'', ''a.zip''), (''TYPE'', ''ZIP Archive'')],
              Print ''Detected operation: '' [(''OPERATION'', ''Decompress'')],
              Print ''ask_has_password'' [],
              Print ''Please enter target directory: '' [],
              Print ''target_exists_header''
                [(''TARGET_PATH'', ''a.zip''), (''OBJECT_TYPE'', ''target_exists_object_file'')],
              Print ''ask_delete_source'' [(''SOURCE_PATH'', ''a.zip'')],
              Probe ''unzip'',
              Print ''decompressing'' [],
              Run ''unzip'' [''-o'', ''/cwd/a.zip'', ''-d'', ''/cwd/a.zip''] [],
              PrintErr ''error_operation_failed'' [(''COMMAND'', ''unzip''), (''EXIT_CODE'', ''9'')]],
             7)"
    by (simp add: main_def main_body_def o h Let_def code_value_def)
  have eq: "equivalent ?f ''a.zip'' ''a.zip''"
    by (simp add: equivalent_def exists_def k)
  from eq m r k(4) show ?thesis by simp
qed

subsection \<open>Renaming an existing target\<close>

lemma ends_with_last: "ends_with f e \<Longrightarrow> e \<noteq> [] \<Longrightarrow> last f = last e"
  unfolding ends_with_def by (metis last_drop length_greater_0_conv diff_less leD le_neq_implies_less
      length_drop diff_diff_cancel zero_less_diff drop_eq_Nil)

lemma ends_with_same_length:
  "ends_with f e \<Longrightarrow> ends_with f e' \<Longrightarrow> length e = length e' \<Longrightarrow> e = e'"
  by (simp add: ends_with_def)

lemma ends_with_append: "ends_with (s @ e) e"
  by (simp add: ends_with_def)

lemma multi_extensions_unique:
  assumes "e \<in> set multi_extensions" "e' \<in> set multi_extensions" "ends_with f e" "ends_with f e'"
  shows "e = e'"
proof -
  have ne: "e \<noteq> []" "e' \<noteq> []" using assms(1,2) by (auto simp: multi_extensions_def)
  have "last e = last e'" using ends_with_last[OF assms(3) ne(1)] ends_with_last[OF assms(4) ne(2)] by simp
  moreover have "last e = last e' \<longrightarrow> length e = length e'"
    using assms(1,2) by (auto simp: multi_extensions_def)
  ultimately show ?thesis using ends_with_same_length[OF assms(3,4)] by simp
qed

lemma split_multi_extension_first:
  assumes "e \<in> set exts" "s \<noteq> []"
    and "\<forall>e'\<in>set exts. ends_with (s @ e) e' \<longrightarrow> e' = e"
  shows "split_multi_extension (s @ e) exts = (s, e)"
  using assms(1,3)
proof (induction exts)
  case Nil
  then show ?case by simp
next
  case (Cons x exts)
  show ?case
  proof (cases "x = e")
    case True
    then show ?thesis using assms(2) by simp
  next
    case False
    with Cons.prems have "\<not> ends_with (s @ e) x" by auto
    then have neg: "\<not> (length (s @ e) > length x \<and> drop (length (s @ e) - length x) (s @ e) = x)"
      by (auto simp: ends_with_def)
    have ih: "split_multi_extension (s @ e) exts = (s, e)"
      using Cons False by auto
    show ?thesis by (simp only: split_multi_extension.simps neg if_False ih)
  qed
qed

lemma split_multi_extension_found:
  assumes "e \<in> set multi_extensions" "s \<noteq> []"
  shows "split_multi_extension (s @ e) multi_extensions = (s, e)"
  by (rule split_multi_extension_first[OF assms])
     (auto intro: multi_extensions_unique[OF _ assms(1) _ ends_with_append])

lemma split_multi_extension_none:
  "\<forall>e\<in>set exts. \<not> (length f > length e \<and> ends_with f e) \<Longrightarrow>
   split_multi_extension f exts = ([], [])"
  by (induction exts) (auto simp: ends_with_def)

lemma generate_compound:
  assumes "filename p = s @ e" "e \<in> set multi_extensions" "s \<noteq> []"
  shows "generate_sequential_candidate p n =
           path_append (parent_path p)
             ((if s = ''.'' \<or> s = ''..'' then ''target'' else s) @ ''_'' @ to_string n @ e)"
  using assms(3)
  by (simp add: generate_sequential_candidate_def assms(1)
        split_multi_extension_found[OF assms(2,3)] Let_def)

lemma generate_last_dot:
  assumes "filename p = s @ CHR ''.'' # x" "CHR ''.'' \<notin> set x" "s \<noteq> []"
    and "\<forall>e\<in>set multi_extensions. \<not> (length (filename p) > length e \<and> ends_with (filename p) e)"
  shows "generate_sequential_candidate p n =
           path_append (parent_path p)
             ((if s = ''.'' \<or> s = ''..'' then ''target'' else s) @ ''_'' @ to_string n @ CHR ''.'' # x)"
proof -
  have f: "find_last_of (filename p) (CHR ''.'') = Some (length s)"
    unfolding assms(1) using assms(2) by (rule find_last_of_append)
  have st: "take (length s) (filename p) = s" "drop (length s) (filename p) = CHR ''.'' # x"
    by (simp_all add: assms(1))
  show ?thesis
    using assms(3)
    by (simp add: generate_sequential_candidate_def split_multi_extension_none[OF assms(4)] f
          Let_def st)
qed

lemma generate_placeholder:
  assumes "filename p = [] \<or> filename p = ''.''"
  shows "generate_sequential_candidate p n = path_append (parent_path p) (''target_'' @ to_string n)"
  using assms
  by (auto simp: generate_sequential_candidate_def multi_extensions_def find_last_of_def)

lemma generate_out_zip:
  "generate_sequential_candidate ''out.zip'' 1 = ''out_1.zip''"
  "generate_sequential_candidate ''out.zip'' 2 = ''out_2.zip''"
  "generate_sequential_candidate ''out.zip'' (Suc 0) = ''out_1.zip''"
  "generate_sequential_candidate ''out.zip'' (Suc (Suc 0)) = ''out_2.zip''"
  by (simp_all add: generate_sequential_candidate_def parent_path_def filename_def
        multi_extensions_def find_last_of_def path_append_def to_string.simps digit_char_def)

lemma rename_step_cases:
  "snd (rename_step fs target rename_base suffix_counter answer) =
     (if trim_copy answer \<noteq> [] \<and>
         trim_copy answer \<noteq> generate_sequential_candidate rename_base suffix_counter \<and>
         trim_copy answer = target
        then Again rename_base suffix_counter
      else rename_step_as_specified fs target rename_base suffix_counter answer)"
  by (auto simp: rename_step_def rename_step_as_specified_def Let_def)

lemma rename_flow_prompts_first:
  "hd (fst (rename_flow fs target rename_base suffix_counter lines)) =
     Print ''target_exists_rename_prompt''
       [(''DEFAULT'', generate_sequential_candidate rename_base suffix_counter)]"
  by (cases lines) (auto simp: rename_prompt_def split: prod.splits rename_result.splits)

text \<open>
  Claim C4, as amended.  The rename flow starts with the target as rename base and the
  counter at 1, and each round offers the candidate generated from the base and the
  counter.  A round goes as the specification says (an empty entry takes the default; a
  default that is the current target or exists is offered again with the counter
  incremented; a custom path that exists becomes the base with the counter back at 1, and
  one that is free is adopted), except that a custom path equal to the current target is
  rejected with base and counter as they were.  For \<open>out.zip\<close> the candidates are
  \<open>out_1.zip\<close> and then \<open>out_2.zip\<close>.  The suffix goes before a compound extension of the
  list taken as a unit, otherwise before the last dot of the file name, and a stem that is
  empty, \<open>.\<close> or \<open>..\<close> is replaced by \<open>target\<close>.
\<close>

theorem rename_defaults:
  "resolve_existing_target fs target u = resolve_loop fs target target 1 (decisions u) (entries u) \<and>
   hd (fst (rename_flow fs target rename_base suffix_counter lines)) =
     Print ''target_exists_rename_prompt''
       [(''DEFAULT'', generate_sequential_candidate rename_base suffix_counter)] \<and>
   snd (rename_step fs target rename_base suffix_counter answer) =
     (if trim_copy answer \<noteq> [] \<and>
         trim_copy answer \<noteq> generate_sequential_candidate rename_base suffix_counter \<and>
         trim_copy answer = target
        then Again rename_base suffix_counter
      else rename_step_as_specified fs target rename_base suffix_counter answer) \<and>
   generate_sequential_candidate ''out.zip'' 1 = ''out_1.zip'' \<and>
   generate_sequential_candidate ''out.zip'' 2 = ''out_2.zip'' \<and>
   (filename p = s @ e \<and> e \<in> set multi_extensions \<and> s \<noteq> [] \<longrightarrow>
      generate_sequential_candidate p n =
        path_append (parent_path p)
          ((if s = ''.'' \<or> s = ''..'' then ''target'' else s) @ ''_'' @ to_string n @ e)) \<and>
   (filename p = s @ CHR ''.'' # x \<and> CHR ''.'' \<notin> set x \<and> s \<noteq> [] \<and>
    (\<forall>e\<in>set multi_extensions. \<not> (length (filename p) > length e \<and> ends_with (filename p) e))
      \<longrightarrow>
      generate_sequential_candidate p n =
        path_append (parent_path p)
          ((if s = ''.'' \<or> s = ''..'' then ''target'' else s) @ ''_'' @ to_string n
             @ CHR ''.'' # x)) \<and>
   (filename p = [] \<or> filename p = ''.'' \<longrightarrow>
      generate_sequential_candidate p n =
        path_append (parent_path p) (''target_'' @ to_string n))"
proof (intro conjI impI)
  show "resolve_existing_target fs target u =
      resolve_loop fs target target 1 (decisions u) (entries u)"
    by (simp only: resolve_existing_target_def)
  show "hd (fst (rename_flow fs target rename_base suffix_counter lines)) =
     Print ''target_exists_rename_prompt''
       [(''DEFAULT'', generate_sequential_candidate rename_base suffix_counter)]"
    by (rule rename_flow_prompts_first)
  show "snd (rename_step fs target rename_base suffix_counter answer) =
     (if trim_copy answer \<noteq> [] \<and>
         trim_copy answer \<noteq> generate_sequential_candidate rename_base suffix_counter \<and>
         trim_copy answer = target
        then Again rename_base suffix_counter
      else rename_step_as_specified fs target rename_base suffix_counter answer)"
    by (rule rename_step_cases)
  show "generate_sequential_candidate ''out.zip'' 1 = ''out_1.zip''"
    by (rule generate_out_zip(1))
  show "generate_sequential_candidate ''out.zip'' 2 = ''out_2.zip''"
    by (rule generate_out_zip(2))
next
  assume "filename p = s @ e \<and> e \<in> set multi_extensions \<and> s \<noteq> []"
  then show "generate_sequential_candidate p n =
        path_append (parent_path p)
          ((if s = ''.'' \<or> s = ''..'' then ''target'' else s) @ ''_'' @ to_string n @ e)"
    using generate_compound[of p s e n] by blast
next
  assume "filename p = s @ CHR ''.'' # x \<and> CHR ''.'' \<notin> set x \<and> s \<noteq> [] \<and>
    (\<forall>e\<in>set multi_extensions. \<not> (length (filename p) > length e \<and> ends_with (filename p) e))"
  then show "generate_sequential_candidate p n =
        path_append (parent_path p)
          ((if s = ''.'' \<or> s = ''..'' then ''target'' else s) @ ''_'' @ to_string n
             @ CHR ''.'' # x)"
    using generate_last_dot[of p s x n] by blast
next
  assume "filename p = [] \<or> filename p = ''.''"
  then show "generate_sequential_candidate p n =
        path_append (parent_path p) (''target_'' @ to_string n)"
    by (rule generate_placeholder)
qed

theorem rename_defaults_witness:
  "snd (rename_step (example_fs [(''out.zip'', RegularKind), (''out_1.zip'', RegularKind)] [])
          ''out.zip'' ''out.zip'' 1 []) = Again ''out.zip'' 2 \<and>
   snd (rename_step (example_fs [(''out.zip'', RegularKind), (''mine.zip'', RegularKind)] [])
          ''out.zip'' ''out.zip'' 3 ''mine.zip'') = Again ''mine.zip'' 1 \<and>
   resolve_existing_target (example_fs [(''out.zip'', RegularKind)] []) ''out.zip''
       \<lparr>decisions = [Rename], entries = [[]]\<rparr>
     = ([Print ''target_exists_header''
           [(''TARGET_PATH'', ''out.zip''), (''OBJECT_TYPE'', ''target_exists_object_file'')],
         Print ''target_exists_rename_prompt'' [(''DEFAULT'', ''out_1.zip'')]],
        Inr (True, ''out_1.zip'', example_fs [(''out.zip'', RegularKind)] [])) \<and>
   generate_sequential_candidate ''d/out.tar.gz'' 1 = ''d/out_1.tar.gz''"
proof -
  let ?f = "example_fs [(''out.zip'', RegularKind), (''out_1.zip'', RegularKind)] []"
  let ?g = "example_fs [(''out.zip'', RegularKind), (''mine.zip'', RegularKind)] []"
  let ?h = "example_fs [(''out.zip'', RegularKind)] []"
  have x: "exists ?f ''out_1.zip''" "exists ?g ''mine.zip''" "exists ?h ''out.zip''"
    "\<not> exists ?h ''out_1.zip''" "\<not> is_directory ?h ''out.zip''"
    by (simp_all add: exists_def is_directory_def example_fs_def)
  have t: "trim_copy [] = []" "trim_copy ''mine.zip'' = ''mine.zip''"
    by (simp_all add: trim_copy_def is_space_def)
  note g1 = rename_defaults [THEN conjunct2, THEN conjunct2, THEN conjunct2, THEN conjunct1,
      unfolded One_nat_def]
  have g3: "generate_sequential_candidate ''out.zip'' 3 = ''out_3.zip''"
    by (simp add: generate_sequential_candidate_def parent_path_def filename_def
        multi_extensions_def find_last_of_def path_append_def to_string.simps digit_char_def)
  from rename_defaults [where fs = ?f and target = "''out.zip''" and rename_base = "''out.zip''"
      and suffix_counter = 1 and answer = "[]", THEN conjunct2, THEN conjunct2, THEN conjunct1]
  have 1: "snd (rename_step ?f ''out.zip'' ''out.zip'' 1 []) = Again ''out.zip'' 2"
    by (simp add: t rename_step_as_specified_def g1 x Let_def)
  from rename_defaults [where fs = ?g and target = "''out.zip''" and rename_base = "''out.zip''"
      and suffix_counter = 3 and answer = "''mine.zip''", THEN conjunct2, THEN conjunct2,
      THEN conjunct1]
  have 2: "snd (rename_step ?g ''out.zip'' ''out.zip'' 3 ''mine.zip'') = Again ''mine.zip'' 1"
    by (simp add: t rename_step_as_specified_def g3 x Let_def)
  have 3: "resolve_existing_target ?h ''out.zip'' \<lparr>decisions = [Rename], entries = [[]]\<rparr>
     = ([Print ''target_exists_header''
           [(''TARGET_PATH'', ''out.zip''), (''OBJECT_TYPE'', ''target_exists_object_file'')],
         Print ''target_exists_rename_prompt'' [(''DEFAULT'', ''out_1.zip'')]],
        Inr (True, ''out_1.zip'', ?h))"
    by (simp add: rename_defaults [THEN conjunct1] x rename_step_def t g1 rename_prompt_def
          target_exists_header_def Let_def)
  have f: "filename ''d/out.tar.gz'' = ''out'' @ ''.tar.gz'' \<and> ''.tar.gz'' \<in> set multi_extensions \<and>
     ''out'' \<noteq> []"
    by (simp add: filename_def multi_extensions_def)
  from rename_defaults [where p = "''d/out.tar.gz''" and s = "''out''" and e = "''.tar.gz''" and n = 1,
      THEN conjunct2, THEN conjunct2, THEN conjunct2, THEN conjunct2, THEN conjunct2,
      THEN conjunct1, THEN mp, OF f]
  have 4: "generate_sequential_candidate ''d/out.tar.gz'' 1 = ''d/out_1.tar.gz''"
    by (simp add: parent_path_def path_append_def to_string.simps digit_char_def)
  from 1 2 3 4 show ?thesis by simp
qed

theorem rename_same_path_counterexample:
  "rename_step_as_specified
       (example_fs [(''out.zip'', RegularKind), (''out_1.zip'', RegularKind)] [])
       ''out.zip'' ''out.zip'' 2 ''out.zip'' = Again ''out.zip'' 1 \<and>
   snd (rename_step (example_fs [(''out.zip'', RegularKind), (''out_1.zip'', RegularKind)] [])
          ''out.zip'' ''out.zip'' 2 ''out.zip'') = Again ''out.zip'' 2 \<and>
   fst (rename_flow (example_fs [(''out.zip'', RegularKind), (''out_1.zip'', RegularKind)] [])
          ''out.zip'' ''out.zip'' 1 [[], ''out.zip'', []])
     = [Print ''target_exists_rename_prompt'' [(''DEFAULT'', ''out_1.zip'')],
        PrintErr ''target_exists_rename_conflict'' [(''TARGET_PATH'', ''out_1.zip'')],
        Print ''target_exists_rename_prompt'' [(''DEFAULT'', ''out_2.zip'')],
        PrintErr ''target_exists_same'' [],
        Print ''target_exists_rename_prompt'' [(''DEFAULT'', ''out_2.zip'')]]"
proof -
  let ?f = "example_fs [(''out.zip'', RegularKind), (''out_1.zip'', RegularKind)] []"
  have x: "exists ?f ''out_1.zip''" "exists ?f ''out.zip''" "\<not> exists ?f ''out_2.zip''"
    by (simp_all add: exists_def example_fs_def)
  have t: "trim_copy [] = []" "trim_copy ''out.zip'' = ''out.zip''"
    by (simp_all add: trim_copy_def is_space_def)
  show ?thesis
    by (simp add: rename_step_as_specified_def rename_step_def rename_prompt_def t x
          generate_out_zip Let_def)
qed

end
